theory Spec2Isabelle
  imports Complex_Main "HOL-Library.Product_Lexorder"
begin

section \<open>Time values\<close>

text \<open>
  Python's \<open>timedelta\<close> is kept normalised as (days, seconds, microseconds) with
  \<open>0 \<le> seconds < 86400\<close> and \<open>0 \<le> microseconds < 1000000\<close>. A duration is modelled
  by its total number of microseconds, from which the three normalised fields are read
  with floor division, as Python computes them, also for negative durations.
  Python's \<open>OverflowError\<close> beyond 999999999 days is outside the model.
\<close>

type_synonym timedelta = int

definition timedelta_minutes :: "int \<Rightarrow> timedelta" where
  "timedelta_minutes m = m * 60000000"

definition timedelta_hours :: "int \<Rightarrow> timedelta" where
  "timedelta_hours h = h * 3600000000"

definition td_days :: "timedelta \<Rightarrow> int" where
  "td_days d = d div 86400000000"

definition td_seconds :: "timedelta \<Rightarrow> int" where
  "td_seconds d = (d div 1000000) mod 86400"

definition td_microseconds :: "timedelta \<Rightarrow> int" where
  "td_microseconds d = d mod 1000000"

text \<open>
  An instant (\<open>datetime\<close>) is the number of microseconds since 1970-01-01T00:00:00 UTC.
  Adding a \<open>timedelta\<close> is integer addition. \<open>datetime.timestamp()\<close> is compared as the
  instant itself.
\<close>

type_synonym datetime = int

text \<open>\<open>datetime(year=2200, month=1, day=1, tzinfo=timezone.utc)\<close>: 84006 days after the epoch.\<close>

definition far_future :: datetime where
  "far_future = 84006 * 86400000000"

text \<open>
  A naive \<open>time\<close> of day is (hour, minute, second, microsecond); Python compares two of
  them lexicographically, which is the order of the product type.
\<close>

type_synonym pytime = "nat \<times> nat \<times> nat \<times> nat"

section \<open>The time-window gate\<close>

text \<open>The local function \<open>is_now(start, end, now)\<close> of \<open>update_seeders\<close>.\<close>

definition is_now :: "'a::linorder \<Rightarrow> 'a \<Rightarrow> 'a \<Rightarrow> bool" where
  "is_now start endt now =
     (if start \<le> endt then start \<le> now \<and> now \<le> endt
      else start \<le> now \<or> now < endt)"

section \<open>Player records and configuration\<close>

text \<open>
  The ORM model \<open>HLL_Player\<close>. The table is the list of its rows; a row is identified by
  its position, \<open>save()\<close> of a queried row overwrites that position and \<open>save()\<close> of a new
  object appends a row.
\<close>

record HLL_Player =
  steam_id_64 :: string
  player_name :: string
  discord_id :: "int option"
  seeding_time_balance :: timedelta
  total_seeding_time :: timedelta
  last_seed_check :: datetime

type_synonym player_table = "HLL_Player list"

text \<open>
  A number of the configuration is a Python \<open>int\<close> or a Python \<open>float\<close>. A float is the
  real number it denotes. Its arithmetic (the rounding of a product to a double, the
  rounding of \<open>timedelta(hours=x)\<close> to microseconds) is not modelled: the two operations
  on floats that the code uses are arguments.
\<close>

datatype pynumber = PyInt int | PyFloat real

record float_ops =
  float_times_int :: "real \<Rightarrow> int \<Rightarrow> real"
  timedelta_hours_float :: "real \<Rightarrow> timedelta"

text \<open>\<open>rate * hours\<close> for an \<open>int\<close> number of hours, and \<open>timedelta(hours=v)\<close>.\<close>

definition times_hours :: "float_ops \<Rightarrow> pynumber \<Rightarrow> int \<Rightarrow> pynumber" where
  "times_hours fl rate hours =
     (case rate of
        PyInt r \<Rightarrow> PyInt (r * hours)
      | PyFloat x \<Rightarrow> PyFloat (float_times_int fl x hours))"

definition timedelta_hours_of :: "float_ops \<Rightarrow> pynumber \<Rightarrow> timedelta" where
  "timedelta_hours_of fl v =
     (case v of
        PyInt n \<Rightarrow> timedelta_hours n
      | PyFloat x \<Rightarrow> timedelta_hours_float fl x)"

text \<open>
  The entries of \<open>global_config['hell_let_loose']\<close> that the code reads. The configuration
  module is not part of the sources: an unset window bound is Python's \<open>None\<close>.
\<close>

record config =
  seeding_start_time_utc :: "string option"
  seeding_end_time_utc :: "string option"
  seeding_threshold :: int
  allow_seeder_reward_message :: bool
  seeder_reward_message :: string
  seeder_vip_reward_hours :: pynumber

datatype py_error = ValueError | TypeError | IndexError | RuntimeError

section \<open>Commands\<close>

subsection \<open>register\<close>

text \<open>\<open>HLL_Player.filter(steam_id_64=steam64)\<close>: the positions of the rows with that steam id.\<close>

definition filter_steam_id :: "player_table \<Rightarrow> string \<Rightarrow> nat list" where
  "filter_steam_id t steam64 = [i \<leftarrow> [0..<length t]. steam_id_64 (t ! i) = steam64]"

datatype register_reply = FoundMultiple | Registered | AlreadyYours | OwnedBySomeoneElse

definition register :: "datetime \<Rightarrow> int \<Rightarrow> string \<Rightarrow> string \<Rightarrow> player_table
    \<Rightarrow> py_error + (register_reply \<times> player_table)" where
  "register now author_id author_name steam64 t =
     (let query_result = filter_steam_id t steam64 in
      if length query_result > 1 then Inr (FoundMultiple, t)
      else if length query_result = 0 then
        (let player = \<lparr>steam_id_64 = steam64, player_name = author_name,
                        discord_id = Some author_id,
                        seeding_time_balance = timedelta_minutes 0,
                        total_seeding_time = timedelta_minutes 0,
                        last_seed_check = now\<rparr>
         in Inr (Registered, t @ [player]))
      else if length query_result = 1 then
        (let i = query_result ! 0; player = t ! i in
         if discord_id player = None then
           Inr (Registered, t[i := player\<lparr>discord_id := Some author_id\<rparr>])
         else if discord_id player = Some author_id then Inr (AlreadyYours, t)
         else Inr (OwnedBySomeoneElse, t))
      else Inl RuntimeError)"

subsection \<open>The privilege values of the servers\<close>

text \<open>
  \<open>get_vip\<close> answers with a dict from server to either \<open>None\<close> or a dict of which the code
  reads the key \<open>vip_expiration\<close> (a string or \<open>None\<close>). The dict is the list of its items in
  iteration order. The client and \<open>rcon_time_str_to_datetime\<close> are not part of the
  sources: \<open>get_vip\<close>, \<open>grant_vip\<close> and the conversion of the string are arguments.
\<close>

record vip_info =
  vip_expiration :: "string option"

type_synonym vip_dict = "(string \<times> vip_info option) list"

text \<open>
  \<open>all(val != vip_entries[0] for val in vip_entries)\<close>. On the empty list \<open>all\<close> is true and
  \<open>vip_entries[0]\<close> is never evaluated.
\<close>

fun entries_mismatch :: "'a list \<Rightarrow> bool" where
  "entries_mismatch [] = True"
| "entries_mismatch (first # rest) = list_all (\<lambda>val. val \<noteq> first) (first # rest)"

text \<open>\<open>vip_entries.pop()\<close>: the last element; \<open>IndexError\<close> on the empty list.\<close>

definition pop :: "'a list \<Rightarrow> py_error + 'a" where
  "pop xs = (if xs = [] then Inl IndexError else Inr (last xs))"

subsection \<open>vip\<close>

datatype vip_reply =
    VipNoPlayer | VipDifferent | VipNoRecord | VipExpired | VipDoesNotExpire
  | VipExpires datetime

text \<open>
  The player is the result of \<open>get_player_by_discord_id\<close> (of the database module, not part
  of the sources). The calls of \<open>datetime.now\<close> within one command give the one instant
  \<open>now\<close>.
\<close>

definition vip :: "(string \<Rightarrow> datetime) \<Rightarrow> datetime \<Rightarrow> (string \<Rightarrow> vip_dict)
    \<Rightarrow> HLL_Player option \<Rightarrow> py_error + vip_reply" where
  "vip rcon_time_str_to_datetime now get_vip player_opt =
     (case player_opt of
        None \<Rightarrow> Inr VipNoPlayer
      | Some player \<Rightarrow>
          (let vip_entries = map snd (get_vip (steam_id_64 player)) in
           if entries_mismatch vip_entries then Inr VipDifferent
           else
             (case pop vip_entries of
                Inl e \<Rightarrow> Inl e
              | Inr None \<Rightarrow> Inr VipNoRecord
              | Inr (Some v) \<Rightarrow>
                  (case vip_expiration v of
                     None \<Rightarrow> Inr VipNoRecord
                   | Some str \<Rightarrow>
                       (let expiration = rcon_time_str_to_datetime str in
                        if expiration < now then Inr VipExpired
                        else if expiration \<ge> far_future then Inr VipDoesNotExpire
                        else Inr (VipExpires expiration))))))"

subsection \<open>claim\<close>

text \<open>Lines 181 to 191 of \<open>claim\<close>: the new expiration from the agreed privilege value.\<close>

definition claim_base :: "(string \<Rightarrow> datetime) \<Rightarrow> datetime \<Rightarrow> vip_info option \<Rightarrow> datetime" where
  "claim_base rcon_time_str_to_datetime now v =
     (case v of
        None \<Rightarrow> now
      | Some d \<Rightarrow>
          (case vip_expiration d of
             None \<Rightarrow> now
           | Some str \<Rightarrow>
               (let cur_expiration = rcon_time_str_to_datetime str in
                if cur_expiration < now then now else cur_expiration)))"

definition claim_expiration :: "float_ops \<Rightarrow> config \<Rightarrow> (string \<Rightarrow> datetime) \<Rightarrow> datetime
    \<Rightarrow> vip_info option \<Rightarrow> int \<Rightarrow> datetime" where
  "claim_expiration fl cfg rcon_time_str_to_datetime now v hours =
     (let grant_value = times_hours fl (seeder_vip_reward_hours cfg) hours in
      claim_base rcon_time_str_to_datetime now v + timedelta_hours_of fl grant_value)"

datatype claim_reply =
    ClaimUsage | ClaimNoPlayer | NotEnoughBanked int | ClaimDifferent | GrantProblem
  | NoNeedToConvert | Claimed pynumber datetime

text \<open>
  What one call of \<open>claim\<close> did: the reply, the player object at the end, the record
  written by \<open>player.save()\<close> (if it was called) and the arguments of \<open>grant_vip\<close> (if it
  was called; the expiration is passed as the instant whose rendering is sent).
\<close>

record claim_outcome =
  reply :: claim_reply
  player_after :: "HLL_Player option"
  saved :: "HLL_Player option"
  grant_call :: "(string \<times> string \<times> datetime) option"

definition claim :: "float_ops \<Rightarrow> config \<Rightarrow> (string \<Rightarrow> datetime) \<Rightarrow> datetime
    \<Rightarrow> (string \<Rightarrow> vip_dict)
    \<Rightarrow> (string \<Rightarrow> string \<Rightarrow> datetime \<Rightarrow> (string \<times> bool) list)
    \<Rightarrow> HLL_Player option \<Rightarrow> int option \<Rightarrow> py_error + claim_outcome" where
  "claim fl cfg rcon_time_str_to_datetime now get_vip grant_vip player_opt hours_opt =
     (case hours_opt of
        None \<Rightarrow> Inr \<lparr>reply = ClaimUsage, player_after = None, saved = None, grant_call = None\<rparr>
      | Some hours \<Rightarrow>
          (case player_opt of
             None \<Rightarrow>
               Inr \<lparr>reply = ClaimNoPlayer, player_after = None, saved = None, grant_call = None\<rparr>
           | Some player \<Rightarrow>
               if hours > td_seconds (seeding_time_balance player) div 3600 then
                 Inr \<lparr>reply = NotEnoughBanked (td_seconds (seeding_time_balance player) div 3600),
                      player_after = Some player, saved = None, grant_call = None\<rparr>
               else
                 (let vip_entries = map snd (get_vip (steam_id_64 player)) in
                  if entries_mismatch vip_entries then
                    Inr \<lparr>reply = ClaimDifferent, player_after = Some player, saved = None,
                         grant_call = None\<rparr>
                  else
                    (case pop vip_entries of
                       Inl e \<Rightarrow> Inl e
                     | Inr v \<Rightarrow>
                         (let grant_value = times_hours fl (seeder_vip_reward_hours cfg) hours;
                              expiration = claim_expiration fl cfg rcon_time_str_to_datetime
                                             now v hours
                          in
                          if expiration \<ge> far_future then
                            Inr \<lparr>reply = NoNeedToConvert, player_after = Some player,
                                 saved = Some player, grant_call = None\<rparr>
                          else
                            (let result_dict =
                                   grant_vip (player_name player) (steam_id_64 player) expiration
                             in
                             if list_ex (\<lambda>(rcon, result). result = False) result_dict then
                               Inr \<lparr>reply = GrantProblem, player_after = Some player,
                                    saved = None,
                                    grant_call = Some (player_name player, steam_id_64 player,
                                                       expiration)\<rparr>
                             else
                               (let player' = player\<lparr>seeding_time_balance :=
                                      seeding_time_balance player - timedelta_hours hours\<rparr>
                                in
                                Inr \<lparr>reply = Claimed grant_value expiration,
                                     player_after = Some player', saved = Some player',
                                     grant_call = Some (player_name player, steam_id_64 player,
                                                        expiration)\<rparr>)))))))"

section \<open>The seeding monitor\<close>

definition SEEDING_INCREMENT_TIMER :: int where
  "SEEDING_INCREMENT_TIMER = 3"

subsection \<open>The window check of a tick\<close>

text \<open>
  \<open>time.fromisoformat\<close> raises \<open>TypeError\<close> on \<open>None\<close> and \<open>ValueError\<close> on a string that
  is not a time. The parser of the strings is an argument (\<open>None\<close> for a string it
  rejects), and the times are naive.
\<close>

definition fromisoformat :: "(string \<Rightarrow> pytime option) \<Rightarrow> string option \<Rightarrow> py_error + pytime" where
  "fromisoformat parse v =
     (case v of
        None \<Rightarrow> Inl TypeError
      | Some str \<Rightarrow> (case parse str of None \<Rightarrow> Inl ValueError | Some t \<Rightarrow> Inr t))"

text \<open>
  The body of the \<open>try\<close> block up to the call of \<open>is_now\<close>: the start is parsed before the
  end, and the first exception leaves the block.
\<close>

definition within_seeding_hours :: "(string \<Rightarrow> pytime option) \<Rightarrow> config \<Rightarrow> pytime
    \<Rightarrow> py_error + bool" where
  "within_seeding_hours parse cfg time_now =
     (case fromisoformat parse (seeding_start_time_utc cfg) of
        Inl e \<Rightarrow> Inl e
      | Inr seeding_start_time \<Rightarrow>
          (case fromisoformat parse (seeding_end_time_utc cfg) of
             Inl e \<Rightarrow> Inl e
           | Inr seeding_end_time \<Rightarrow>
               Inr (is_now seeding_start_time seeding_end_time time_now)))"

subsection \<open>Accrual for one player\<close>

text \<open>\<open>str in str\<close> on strings, as the \<open>contains\<close> lookup matches a steam id.\<close>

fun startswith :: "string \<Rightarrow> string \<Rightarrow> bool" where
  "startswith s [] = True"
| "startswith [] (c # cs) = False"
| "startswith (x # xs) (c # cs) = (x = c \<and> startswith xs cs)"

fun str_contains :: "string \<Rightarrow> string \<Rightarrow> bool" where
  "str_contains [] sub = (sub = [])"
| "str_contains (x # xs) sub = (startswith (x # xs) sub \<or> str_contains xs sub)"

text \<open>\<open>HLL_Player.filter(steam_id_64__contains=...)\<close>: the positions of the matching rows.\<close>

definition filter_contains :: "player_table \<Rightarrow> string \<Rightarrow> nat list" where
  "filter_contains t sid = [i \<leftarrow> [0..<length t]. str_contains (steam_id_64 (t ! i)) sid]"

record rcon_player =
  rcon_name :: string
  rcon_steam_id_64 :: string

datatype presence = OutsideSeedingWindow | Seeding nat int | SeedingDone

datatype event =
    CantSetSeedingHours
  | MultipleSteamIds string
  | FailedUpdatingRecord string
  | SendPlayerMessage string string string
  | FailedToSendMessage string
  | ChangePresence bool presence

text \<open>
  The state of a tick: the table, what was logged as an error or sent so far (in
  \<open>ChangePresence\<close> the flag is true for the status online, false for idle), and whether
  an exception has left the task.
\<close>

record tick_state =
  table :: player_table
  events :: "event list"
  raised :: bool

text \<open>
  \<open>divmod(divmod(balance.seconds, 60)[0], 60)[0]\<close>: the hours read from the \<open>seconds\<close>
  field of the balance.
\<close>

definition hourly :: "timedelta \<Rightarrow> int" where
  "hourly balance = (td_seconds balance div 60) div 60"

text \<open>
  The body of the loop over the players of a seeding server. \<open>save_ok\<close> tells whether
  writing a record succeeds; a failed write of a new record is not caught and leaves the
  task, a failed write of an existing one is logged. \<open>send_player_message\<close> is the
  client's call and its result.
\<close>

definition seed_player :: "config \<Rightarrow> datetime \<Rightarrow> (HLL_Player \<Rightarrow> bool)
    \<Rightarrow> (string \<Rightarrow> string \<Rightarrow> string \<Rightarrow> bool) \<Rightarrow> string \<Rightarrow> rcon_player
    \<Rightarrow> tick_state \<Rightarrow> tick_state" where
  "seed_player cfg now save_ok send_player_message rcon_server_url player st =
     (let seeder_query = filter_contains (table st) (rcon_steam_id_64 player);
          player_name' = rcon_name player;
          steam_id_64' = rcon_steam_id_64 player
      in
      if seeder_query = [] then
        (let s = \<lparr>steam_id_64 = steam_id_64', player_name = player_name',
                   discord_id = None,
                   seeding_time_balance = timedelta_minutes 0,
                   total_seeding_time = timedelta_minutes 0,
                   last_seed_check = now\<rparr>
         in if save_ok s then st\<lparr>table := table st @ [s]\<rparr> else st\<lparr>raised := True\<rparr>)
      else if length seeder_query \<noteq> 1 then
        st\<lparr>events := events st @ [MultipleSteamIds steam_id_64']\<rparr>
      else
        (let i = seeder_query ! 0;
             seeder0 = table st ! i;
             additional_time = timedelta_minutes SEEDING_INCREMENT_TIMER;
             old_seed_balance = seeding_time_balance seeder0;
             seeder = seeder0\<lparr>seeding_time_balance := seeding_time_balance seeder0 + additional_time,
                              total_seeding_time := total_seeding_time seeder0 + additional_time,
                              last_seed_check := now\<rparr>;
             st1 = (if save_ok seeder then st\<lparr>table := (table st)[i := seeder]\<rparr>
                    else st\<lparr>events := events st @ [FailedUpdatingRecord (player_name seeder)]\<rparr>)
         in
         if allow_seeder_reward_message cfg then
           (let new_hourly = hourly (seeding_time_balance seeder);
                old_hourly = hourly old_seed_balance
            in
            if new_hourly > old_hourly then
              (let msg_result = send_player_message rcon_server_url (steam_id_64 seeder)
                                  (seeder_reward_message cfg);
                   st2 = st1\<lparr>events := events st1 @
                           [SendPlayerMessage rcon_server_url (steam_id_64 seeder)
                              (seeder_reward_message cfg)]\<rparr>
               in
               if \<not> msg_result then
                 st2\<lparr>events := events st2 @ [FailedToSendMessage (steam_id_64 seeder)]\<rparr>
               else st2)
            else st1)
         else st1))"

subsection \<open>A tick\<close>

text \<open>The loop over the players: nothing more runs once an exception has left the task.\<close>

fun seed_players :: "config \<Rightarrow> datetime \<Rightarrow> (HLL_Player \<Rightarrow> bool)
    \<Rightarrow> (string \<Rightarrow> string \<Rightarrow> string \<Rightarrow> bool) \<Rightarrow> string \<Rightarrow> rcon_player list
    \<Rightarrow> tick_state \<Rightarrow> tick_state" where
  "seed_players cfg now save_ok send_player_message url [] st = st"
| "seed_players cfg now save_ok send_player_message url (player # rest) st =
     (if raised st then st
      else seed_players cfg now save_ok send_player_message url rest
             (seed_player cfg now save_ok send_player_message url player st))"

text \<open>
  The body of the loop over the servers; \<open>ws\<close> tells whether the bot's websocket exists,
  without which no presence is set.
\<close>

definition seed_server :: "config \<Rightarrow> bool \<Rightarrow> datetime \<Rightarrow> (HLL_Player \<Rightarrow> bool)
    \<Rightarrow> (string \<Rightarrow> string \<Rightarrow> string \<Rightarrow> bool) \<Rightarrow> string \<times> rcon_player list
    \<Rightarrow> tick_state \<Rightarrow> tick_state" where
  "seed_server cfg ws now save_ok send_player_message entry st =
     (let rcon_server_url = fst entry; player_list = snd entry in
      if int (length player_list) < seeding_threshold cfg then
        (let st1 = seed_players cfg now save_ok send_player_message rcon_server_url
                     player_list st
         in
         if raised st1 then st1
         else if ws then
           st1\<lparr>events := events st1 @
                 [ChangePresence True (Seeding (length player_list) (seeding_threshold cfg))]\<rparr>
         else st1)
      else if ws then st\<lparr>events := events st @ [ChangePresence False SeedingDone]\<rparr>
      else st)"

fun seed_servers :: "config \<Rightarrow> bool \<Rightarrow> datetime \<Rightarrow> (HLL_Player \<Rightarrow> bool)
    \<Rightarrow> (string \<Rightarrow> string \<Rightarrow> string \<Rightarrow> bool) \<Rightarrow> (string \<times> rcon_player list) list
    \<Rightarrow> tick_state \<Rightarrow> tick_state" where
  "seed_servers cfg ws now save_ok send_player_message [] st = st"
| "seed_servers cfg ws now save_ok send_player_message (entry # rest) st =
     (if raised st then st
      else seed_servers cfg ws now save_ok send_player_message rest
             (seed_server cfg ws now save_ok send_player_message entry st))"

text \<open>
  One run of \<open>update_seeders\<close>: \<open>time_now\<close> is the UTC time of day, \<open>now\<close> the instant
  written to \<open>last_seed_check\<close>, \<open>result\<close> the answer of \<open>get_player_list\<close>, \<open>t\<close> the table
  before the tick.
\<close>

definition update_seeders :: "(string \<Rightarrow> pytime option) \<Rightarrow> config \<Rightarrow> bool \<Rightarrow> pytime
    \<Rightarrow> datetime \<Rightarrow> (HLL_Player \<Rightarrow> bool) \<Rightarrow> (string \<Rightarrow> string \<Rightarrow> string \<Rightarrow> bool)
    \<Rightarrow> (string \<times> rcon_player list) list \<Rightarrow> player_table \<Rightarrow> tick_state" where
  "update_seeders parse cfg ws time_now now save_ok send_player_message result t =
     (case within_seeding_hours parse cfg time_now of
        Inr active \<Rightarrow>
          if \<not> active then
            \<lparr>table = t,
             events = (if ws then [ChangePresence False OutsideSeedingWindow] else []),
             raised = False\<rparr>
          else seed_servers cfg ws now save_ok send_player_message result
                 \<lparr>table = t, events = [], raised = False\<rparr>
      | Inl ValueError \<Rightarrow>
          seed_servers cfg ws now save_ok send_player_message result
            \<lparr>table = t, events = [CantSetSeedingHours], raised = False\<rparr>
      | Inl TypeError \<Rightarrow>
          seed_servers cfg ws now save_ok send_player_message result
            \<lparr>table = t, events = [], raised = False\<rparr>
      | Inl e \<Rightarrow> \<lparr>table = t, events = [], raised = True\<rparr>)"

section \<open>Notions for the properties of a tick\<close>

text \<open>
  The players that a tick handles, in the order of its two loops: those of the servers
  whose player count is below the threshold.
\<close>

definition seeding_players :: "config \<Rightarrow> (string \<times> rcon_player list) list \<Rightarrow> rcon_player list" where
  "seeding_players cfg result =
     concat (map snd (filter (\<lambda>entry. int (length (snd entry)) < seeding_threshold cfg) result))"

text \<open>
  The rows that the \<open>contains\<close> lookup finds for a steam id.
\<close>

definition matching_rows :: "player_table \<Rightarrow> string \<Rightarrow> HLL_Player list" where
  "matching_rows t sid = filter (\<lambda>r. str_contains (steam_id_64 r) sid) t"

text \<open>
  What the body of the player loop does to the table when every write succeeds.
\<close>

definition player_step :: "datetime \<Rightarrow> rcon_player \<Rightarrow> player_table \<Rightarrow> player_table" where
  "player_step now player t =
     (let seeder_query = filter_contains t (rcon_steam_id_64 player) in
      if seeder_query = [] then
        t @ [\<lparr>steam_id_64 = rcon_steam_id_64 player, player_name = rcon_name player,
               discord_id = None, seeding_time_balance = timedelta_minutes 0,
               total_seeding_time = timedelta_minutes 0, last_seed_check = now\<rparr>]
      else if length seeder_query \<noteq> 1 then t
      else
        (let i = seeder_query ! 0; seeder0 = t ! i in
         t[i := seeder0\<lparr>seeding_time_balance :=
                          seeding_time_balance seeder0 + timedelta_minutes SEEDING_INCREMENT_TIMER,
                        total_seeding_time :=
                          total_seeding_time seeder0 + timedelta_minutes SEEDING_INCREMENT_TIMER,
                        last_seed_check := now\<rparr>]))"

section \<open>Example inputs\<close>

text \<open>
  Concrete inputs at which the definitions are evaluated below. The two conversion
  functions give the values of \<open>rcon_time_str_to_datetime\<close> and of \<open>time.fromisoformat\<close>
  on the strings that occur in the examples; 2026-11-04T12:00:00 UTC is the instant
  \<open>example_now\<close>. The rate of the example configuration is the \<open>int\<close> 1, so the float
  operations (given in exact arithmetic) are never applied.
\<close>

definition example_config :: config where
  "example_config = \<lparr>seeding_start_time_utc = None, seeding_end_time_utc = None,
     seeding_threshold = 40, allow_seeder_reward_message = True,
     seeder_reward_message = ''Thanks for seeding'',
     seeder_vip_reward_hours = PyInt 1\<rparr>"

definition example_float_ops :: float_ops where
  "example_float_ops = \<lparr>float_times_int = (\<lambda>x h. x * of_int h),
     timedelta_hours_float = (\<lambda>x. round (x * 3600000000))\<rparr>"

definition example_rcon_time :: "string \<Rightarrow> datetime" where
  "example_rcon_time str =
     (if str = ''2030-01-01T00:00:00+00:00'' then 1893456000000000
      else if str = ''2199-12-31T23:00:00+00:00'' then 7258114800000000
      else if str = ''2026-11-04T11:00:00+00:00'' then 1793790000000000
      else 0)"

definition example_parse :: "string \<Rightarrow> pytime option" where
  "example_parse str =
     (if str = ''22:00'' then Some (22, 0, 0, 0)
      else if str = ''06:00'' then Some (6, 0, 0, 0)
      else None)"

definition example_now :: datetime where
  "example_now = 1793793600000000"

definition example_player :: "timedelta \<Rightarrow> HLL_Player" where
  "example_player balance = \<lparr>steam_id_64 = ''76561198000000001'', player_name = ''seeder'',
     discord_id = Some 42, seeding_time_balance = balance,
     total_seeding_time = balance, last_seed_check = 1793700000000000\<rparr>"

definition example_table :: player_table where
  "example_table = [example_player (timedelta_hours 3),
     \<lparr>steam_id_64 = ''76561198000000002'', player_name = ''other'', discord_id = None,
      seeding_time_balance = timedelta_minutes 30, total_seeding_time = timedelta_minutes 30,
      last_seed_check = 1793700000000000\<rparr>]"

definition vip_until :: "string \<Rightarrow> vip_info option" where
  "vip_until str = Some \<lparr>vip_expiration = Some str\<rparr>"

definition get_vip_different :: "string \<Rightarrow> vip_dict" where
  "get_vip_different sid =
     [(''server1'', None), (''server2'', vip_until ''2030-01-01T00:00:00+00:00'')]"

definition get_vip_none :: "string \<Rightarrow> vip_dict" where
  "get_vip_none sid = [(''server1'', None), (''server2'', None)]"

definition get_vip_2199 :: "string \<Rightarrow> vip_dict" where
  "get_vip_2199 sid = [(''server1'', vip_until ''2199-12-31T23:00:00+00:00''),
                       (''server2'', vip_until ''2199-12-31T23:00:00+00:00'')]"

definition grant_vip_ok :: "string \<Rightarrow> string \<Rightarrow> datetime \<Rightarrow> (string \<times> bool) list" where
  "grant_vip_ok n sid expiration = [(''server1'', True), (''server2'', True)]"

definition grant_vip_second_fails :: "string \<Rightarrow> string \<Rightarrow> datetime \<Rightarrow> (string \<times> bool) list" where
  "grant_vip_second_fails n sid expiration = [(''server1'', True), (''server2'', False)]"

definition save_succeeds :: "HLL_Player \<Rightarrow> bool" where
  "save_succeeds p = True"

definition message_delivered :: "string \<Rightarrow> string \<Rightarrow> string \<Rightarrow> bool" where
  "message_delivered url sid text = True"

definition example_result :: "(string \<times> rcon_player list) list" where
  "example_result =
     [(''server1'', [\<lparr>rcon_name = ''seeder'', rcon_steam_id_64 = ''76561198000000001''\<rparr>])]"

definition get_vip_expired :: "string \<Rightarrow> vip_dict" where
  "get_vip_expired sid = [(''server1'', vip_until ''2026-11-04T11:00:00+00:00''),
                          (''server2'', vip_until ''2026-11-04T11:00:00+00:00'')]"

definition get_vip_first_only :: "string \<Rightarrow> vip_dict" where
  "get_vip_first_only sid =
     [(''server1'', vip_until ''2030-01-01T00:00:00+00:00''), (''server2'', None)]"

definition get_vip_2030 :: "string \<Rightarrow> vip_dict" where
  "get_vip_2030 sid = [(''server1'', vip_until ''2030-01-01T00:00:00+00:00''),
                       (''server2'', vip_until ''2030-01-01T00:00:00+00:00'')]"

definition example_other_table :: player_table where
  "example_other_table =
     [\<lparr>steam_id_64 = ''76561198000000002'', player_name = ''other'', discord_id = None,
       seeding_time_balance = timedelta_minutes 30, total_seeding_time = timedelta_minutes 30,
       last_seed_check = 1793700000000000\<rparr>]"

definition example_seeder :: rcon_player where
  "example_seeder = \<lparr>rcon_name = ''seeder'', rcon_steam_id_64 = ''76561198000000001''\<rparr>"

definition example_other :: rcon_player where
  "example_other = \<lparr>rcon_name = ''other'', rcon_steam_id_64 = ''76561198000000002''\<rparr>"

definition example_result_two :: "(string \<times> rcon_player list) list" where
  "example_result_two = [(''server1'', [example_other, example_seeder])]"

section \<open>Auxiliary facts\<close>

lemmas ex_defs = example_config_def example_rcon_time_def example_now_def example_player_def
  vip_until_def get_vip_different_def get_vip_none_def get_vip_2199_def grant_vip_ok_def
  grant_vip_second_fails_def

lemmas td_defs = timedelta_hours_def timedelta_minutes_def td_seconds_def far_future_def
  times_hours_def timedelta_hours_of_def

lemmas tick_defs = update_seeders_def within_seeding_hours_def fromisoformat_def
  seed_server_def seed_player_def filter_contains_def hourly_def SEEDING_INCREMENT_TIMER_def
  example_parse_def save_succeeds_def message_delivered_def example_result_def

lemmas ex2_defs = get_vip_expired_def get_vip_first_only_def get_vip_2030_def

lemma entries_mismatch_iff: "entries_mismatch xs \<longleftrightarrow> xs = []"
  by (cases xs) simp_all

lemma pop_agreed:
  "\<not> entries_mismatch xs \<Longrightarrow> pop xs = Inr (last xs)"
  by (cases xs) (simp_all add: pop_def)

lemma pop_Inr: "pop xs = Inr v \<Longrightarrow> v = last xs"
  by (simp add: pop_def split: if_splits)

lemma claim_returns:
  "\<exists>out. claim fl cfg conv now get_vip grant_vip player_opt hours_opt = Inr out"
  by (auto simp: claim_def Let_def pop_agreed split: option.splits)

text \<open>
  Every run of \<open>claim\<close> for a known player and a given number of hours ends in one
  of five ways.
\<close>

lemma claim_cases:
  assumes "claim fl cfg conv now get_vip grant_vip (Some player) (Some hours) = Inr out"
  shows "(hours > td_seconds (seeding_time_balance player) div 3600 \<and>
            out = \<lparr>reply = NotEnoughBanked (td_seconds (seeding_time_balance player) div 3600),
                    player_after = Some player, saved = None, grant_call = None\<rparr>)
       \<or> (out = \<lparr>reply = ClaimDifferent, player_after = Some player, saved = None, grant_call = None\<rparr>)
       \<or> (\<exists>v. pop (map snd (get_vip (steam_id_64 player))) = Inr v \<and>
              far_future \<le> claim_expiration fl cfg conv now v hours \<and>
              out = \<lparr>reply = NoNeedToConvert, player_after = Some player,
                      saved = Some player, grant_call = None\<rparr>)
       \<or> (\<exists>v. pop (map snd (get_vip (steam_id_64 player))) = Inr v \<and>
              claim_expiration fl cfg conv now v hours < far_future \<and>
              list_ex (\<lambda>(rcon, result). result = False)
                (grant_vip (player_name player) (steam_id_64 player)
                   (claim_expiration fl cfg conv now v hours)) \<and>
              out = \<lparr>reply = GrantProblem, player_after = Some player, saved = None,
                      grant_call = Some (player_name player, steam_id_64 player,
                                         claim_expiration fl cfg conv now v hours)\<rparr>)
       \<or> (\<exists>v. pop (map snd (get_vip (steam_id_64 player))) = Inr v \<and>
              \<not> hours > td_seconds (seeding_time_balance player) div 3600 \<and>
              claim_expiration fl cfg conv now v hours < far_future \<and>
              \<not> list_ex (\<lambda>(rcon, result). result = False)
                (grant_vip (player_name player) (steam_id_64 player)
                   (claim_expiration fl cfg conv now v hours)) \<and>
              out = \<lparr>reply = Claimed (times_hours fl (seeder_vip_reward_hours cfg) hours)
                                (claim_expiration fl cfg conv now v hours),
                      player_after = Some (player\<lparr>seeding_time_balance :=
                                        seeding_time_balance player - timedelta_hours hours\<rparr>),
                      saved = Some (player\<lparr>seeding_time_balance :=
                                        seeding_time_balance player - timedelta_hours hours\<rparr>),
                      grant_call = Some (player_name player, steam_id_64 player,
                                         claim_expiration fl cfg conv now v hours)\<rparr>)"
  using assms
  by (auto simp: claim_def Let_def split: if_splits sum.splits)

text \<open>
  Below one day the \<open>seconds\<close> field is the whole duration, and the hours read from it
  are the whole hours of the balance.
\<close>

lemma td_seconds_below_day:
  assumes "0 \<le> b" and "b < timedelta_hours 24"
  shows "td_seconds b = b div 1000000"
proof -
  have "b div 1000000 < 86400"
    using assms(2) by (simp add: timedelta_hours_def)
  moreover have "0 \<le> b div 1000000"
    using assms(1) by simp
  ultimately show ?thesis
    by (simp add: td_seconds_def)
qed

lemma banked_hours_below_day:
  assumes "0 \<le> b" and "b < timedelta_hours 24"
  shows "td_seconds b div 3600 = b div timedelta_hours 1"
proof -
  have "b div 1000000 div 3600 = b div (1000000 * 3600)"
    by (simp add: zdiv_zmult2_eq)
  then show ?thesis
    using assms by (simp add: td_seconds_below_day timedelta_hours_def)
qed

lemma hourly_below_day:
  assumes "0 \<le> b" and "b < timedelta_hours 24"
  shows "hourly b = b div timedelta_hours 1"
proof -
  have "b div 1000000 div 60 div 60 = b div (1000000 * 60 * 60)"
    by (simp add: div_mult2_eq)
  then show ?thesis
    using assms by (simp add: hourly_def td_seconds_below_day timedelta_hours_def)
qed

lemma reward_signal_below_day:
  assumes "0 \<le> b" and "b + timedelta_minutes SEEDING_INCREMENT_TIMER < timedelta_hours 24"
  shows "hourly (b + timedelta_minutes SEEDING_INCREMENT_TIMER) > hourly b
           \<longleftrightarrow> (b + timedelta_minutes SEEDING_INCREMENT_TIMER) div timedelta_hours 1
                 > b div timedelta_hours 1"
proof -
  have "0 \<le> b + timedelta_minutes SEEDING_INCREMENT_TIMER"
    using assms(1) by (simp add: timedelta_minutes_def SEEDING_INCREMENT_TIMER_def)
  moreover have "b < timedelta_hours 24"
    using assms(2) by (simp add: timedelta_minutes_def SEEDING_INCREMENT_TIMER_def)
  ultimately show ?thesis
    using assms by (simp add: hourly_below_day)
qed

lemma filter_steam_id_bound: "i \<in> set (filter_steam_id t s) \<Longrightarrow> i < length t"
  by (simp add: filter_steam_id_def)

lemma startswith_refl: "startswith s s"
  by (induction s) simp_all

lemma str_contains_refl: "str_contains s s"
  by (cases s) (simp_all add: startswith_refl)

text \<open>
  What has been logged before does not influence a tick: the earlier events stay in
  front.
\<close>

lemma seed_player_events:
  "seed_player cfg now save_ok send url player (st\<lparr>events := es @ events st\<rparr>)
     = (seed_player cfg now save_ok send url player st)
         \<lparr>events := es @ events (seed_player cfg now save_ok send url player st)\<rparr>"
  by (simp add: seed_player_def Let_def)

lemma seed_players_events:
  "seed_players cfg now save_ok send url players (st\<lparr>events := es @ events st\<rparr>)
     = (seed_players cfg now save_ok send url players st)
         \<lparr>events := es @ events (seed_players cfg now save_ok send url players st)\<rparr>"
proof (induction players arbitrary: st)
  case Nil
  show ?case by simp
next
  case (Cons p ps)
  show ?case
    by (simp add: seed_player_events Cons.IH)
qed

lemma seed_server_events:
  "seed_server cfg ws now save_ok send entry (st\<lparr>events := es @ events st\<rparr>)
     = (seed_server cfg ws now save_ok send entry st)
         \<lparr>events := es @ events (seed_server cfg ws now save_ok send entry st)\<rparr>"
  by (simp add: seed_server_def Let_def seed_players_events)

lemma seed_servers_events:
  "seed_servers cfg ws now save_ok send result (st\<lparr>events := es @ events st\<rparr>)
     = (seed_servers cfg ws now save_ok send result st)
         \<lparr>events := es @ events (seed_servers cfg ws now save_ok send result st)\<rparr>"
proof (induction result arbitrary: st)
  case Nil
  show ?case by simp
next
  case (Cons e rest)
  show ?case
    by (simp add: seed_server_events Cons.IH)
qed

lemma seed_servers_logged_first:
  "seed_servers cfg ws now save_ok send result \<lparr>table = t, events = [ev], raised = False\<rparr>
     = (seed_servers cfg ws now save_ok send result \<lparr>table = t, events = [], raised = False\<rparr>)
         \<lparr>events := ev # events (seed_servers cfg ws now save_ok send result
                                    \<lparr>table = t, events = [], raised = False\<rparr>)\<rparr>"
  using seed_servers_events [where st = "\<lparr>table = t, events = [], raised = False\<rparr>"
          and es = "[ev]"]
  by simp

lemma update_seeders_active:
  assumes "within_seeding_hours parse cfg time_now = Inr True"
  shows "update_seeders parse cfg ws time_now now save_ok send_player_message result t
           = seed_servers cfg ws now save_ok send_player_message result
               \<lparr>table = t, events = [], raised = False\<rparr>"
  using assms by (simp add: update_seeders_def)

text \<open>
  A successful claim: what the reply, the player and the grant are.
\<close>

lemma claim_claimed:
  assumes "claim fl cfg conv now get_vip grant_vip (Some player) (Some hours) = Inr out"
      and "reply out = Claimed grant_value expiration"
  shows "\<exists>v0. pop (map snd (get_vip (steam_id_64 player))) = Inr v0
          \<and> expiration = claim_expiration fl cfg conv now v0 hours
          \<and> grant_value = times_hours fl (seeder_vip_reward_hours cfg) hours
          \<and> player_after out = Some (player\<lparr>seeding_time_balance :=
                                        seeding_time_balance player - timedelta_hours hours\<rparr>)
          \<and> saved out = player_after out
          \<and> grant_call out = Some (player_name player, steam_id_64 player, expiration)"
  using claim_cases [OF assms(1)] assms(2)
  by (elim disjE exE conjE) simp_all

lemma claim_expiration_formula:
  "claim_expiration fl cfg conv now v hours
      = (case v of
           None \<Rightarrow> now
         | Some d \<Rightarrow>
             (case vip_expiration d of
                None \<Rightarrow> now
              | Some str \<Rightarrow> if conv str < now then now else conv str))
        + (case seeder_vip_reward_hours cfg of
             PyInt r \<Rightarrow> r * hours * 3600000000
           | PyFloat x \<Rightarrow> timedelta_hours_float fl (float_times_int fl x hours))"
  by (simp add: claim_expiration_def claim_base_def times_hours_def timedelta_hours_of_def
        timedelta_hours_def Let_def split: option.splits pynumber.splits)

lemma pop_of_agreed:
  assumes "pop xs = Inr v0" and "\<forall>x \<in> set xs. x = v"
  shows "v0 = v"
proof -
  from assms(1) have "xs \<noteq> []" and "v0 = last xs"
    by (simp_all add: pop_def split: if_splits)
  then have "v0 \<in> set xs"
    by simp
  with assms(2) show ?thesis by simp
qed

text \<open>
  With every write succeeding, a tick that the window check lets run applies the step of
  the loop body to the table, player by player.
\<close>

lemma seed_player_table:
  assumes "\<forall>r. save_ok r"
  shows "table (seed_player cfg now save_ok send url q st) = player_step now q (table st)
       \<and> raised (seed_player cfg now save_ok send url q st) = raised st"
  using assms by (simp add: seed_player_def player_step_def Let_def)

lemma seed_players_table:
  assumes "\<forall>r. save_ok r" and "\<not> raised st"
  shows "table (seed_players cfg now save_ok send url qs st) = fold (player_step now) qs (table st)
       \<and> \<not> raised (seed_players cfg now save_ok send url qs st)"
  using assms(2)
proof (induction qs arbitrary: st)
  case Nil
  then show ?case by simp
next
  case (Cons q qs)
  let ?st1 = "seed_player cfg now save_ok send url q st"
  from seed_player_table [OF assms(1), of cfg now send url q st] Cons.prems
  have t1: "table ?st1 = player_step now q (table st)" and r1: "\<not> raised ?st1"
    by simp_all
  from Cons.IH [OF r1] t1 Cons.prems show ?case
    by simp
qed

lemma seed_server_table:
  assumes "\<forall>r. save_ok r" and "\<not> raised st"
  shows "table (seed_server cfg ws now save_ok send entry st)
           = fold (player_step now) (seeding_players cfg [entry]) (table st)
       \<and> \<not> raised (seed_server cfg ws now save_ok send entry st)"
  using seed_players_table [OF assms, of cfg now send "fst entry" "snd entry"] assms(2)
  by (simp add: seed_server_def seeding_players_def Let_def)

lemma seeding_players_Cons:
  "seeding_players cfg (entry # rest) = seeding_players cfg [entry] @ seeding_players cfg rest"
  by (simp add: seeding_players_def)

lemma seed_servers_table:
  assumes "\<forall>r. save_ok r" and "\<not> raised st"
  shows "table (seed_servers cfg ws now save_ok send result st)
           = fold (player_step now) (seeding_players cfg result) (table st)
       \<and> \<not> raised (seed_servers cfg ws now save_ok send result st)"
  using assms(2)
proof (induction result arbitrary: st)
  case Nil
  then show ?case by (simp add: seeding_players_def)
next
  case (Cons entry rest)
  let ?st1 = "seed_server cfg ws now save_ok send entry st"
  from seed_server_table [OF assms(1) Cons.prems, of cfg ws now send entry]
  have t1: "table ?st1 = fold (player_step now) (seeding_players cfg [entry]) (table st)"
    and r1: "\<not> raised ?st1"
    by simp_all
  from Cons.IH [OF r1] t1 Cons.prems show ?case
    by (simp add: seeding_players_Cons [of cfg entry rest])
qed

lemma within_seeding_hours_errors:
  "within_seeding_hours parse cfg time_now = Inl e \<Longrightarrow> e = ValueError \<or> e = TypeError"
  by (auto simp: within_seeding_hours_def fromisoformat_def split: option.splits sum.splits)

lemma update_seeders_table:
  assumes "within_seeding_hours parse cfg time_now \<noteq> Inr False" and "\<forall>r. save_ok r"
  shows "table (update_seeders parse cfg ws time_now now save_ok send result t)
           = fold (player_step now) (seeding_players cfg result) t"
proof (cases "within_seeding_hours parse cfg time_now")
  case (Inr active)
  with assms(1) have "active" by auto
  with Inr show ?thesis
    using seed_servers_table [OF assms(2), of "\<lparr>table = t, events = [], raised = False\<rparr>"
            cfg ws now send result]
    by (simp add: update_seeders_def)
next
  case (Inl e)
  from within_seeding_hours_errors [OF Inl] show ?thesis
  proof
    assume "e = ValueError"
    with Inl show ?thesis
      using seed_servers_table [OF assms(2),
              of "\<lparr>table = t, events = [CantSetSeedingHours], raised = False\<rparr>"
              cfg ws now send result]
      by (simp add: update_seeders_def)
  next
    assume "e = TypeError"
    with Inl show ?thesis
      using seed_servers_table [OF assms(2), of "\<lparr>table = t, events = [], raised = False\<rparr>"
              cfg ws now send result]
      by (simp add: update_seeders_def)
  qed
qed

text \<open>
  The rows matching a steam id: the step for an unrelated player leaves them as they
  are, the step for the player adds a row when there is none and credits the row when
  there is one.
\<close>

lemma matching_rows_nth:
  "map ((!) t) (filter_contains t s) = matching_rows t s"
proof -
  have "map ((!) t) [i \<leftarrow> [0..<length t]. str_contains (steam_id_64 (t ! i)) s]
          = filter (\<lambda>r. str_contains (steam_id_64 r) s) (map ((!) t) [0..<length t])"
    by (simp add: filter_map comp_def)
  then show ?thesis
    by (simp add: filter_contains_def matching_rows_def map_nth)
qed

lemma filter_contains_bound: "i \<in> set (filter_contains t s) \<Longrightarrow> i < length t"
  by (simp add: filter_contains_def)

lemma filter_contains_match:
  "i \<in> set (filter_contains t s) \<Longrightarrow> str_contains (steam_id_64 (t ! i)) s"
  by (simp add: filter_contains_def)

lemma filter_contains_update:
  assumes "i < length t" and "steam_id_64 x = steam_id_64 (t ! i)"
  shows "filter_contains (t[i := x]) s = filter_contains t s"
proof -
  have "[j \<leftarrow> [0..<length t]. str_contains (steam_id_64 (t[i := x] ! j)) s]
          = [j \<leftarrow> [0..<length t]. str_contains (steam_id_64 (t ! j)) s]"
  proof (rule filter_cong [OF refl])
    fix j assume "j \<in> set [0..<length t]"
    then show "str_contains (steam_id_64 (t[i := x] ! j)) s
                 = str_contains (steam_id_64 (t ! j)) s"
      using assms by (cases "i = j") simp_all
  qed
  then show ?thesis
    by (simp add: filter_contains_def)
qed

lemma filter_update_irrelevant:
  "\<not> P x \<Longrightarrow> j < length t \<Longrightarrow> \<not> P (t ! j) \<Longrightarrow> filter P (t[j := x]) = filter P t"
proof (induction t arbitrary: j)
  case Nil
  then show ?case by simp
next
  case (Cons a t)
  then show ?case
    by (cases j) simp_all
qed

lemma matching_rows_other:
  assumes inv: "\<forall>r \<in> set (matching_rows t s). steam_id_64 r = s"
      and a: "\<not> str_contains (rcon_steam_id_64 q) s"
      and b: "\<not> str_contains s (rcon_steam_id_64 q)"
  shows "matching_rows (player_step now q t) s = matching_rows t s"
proof -
  let ?query = "filter_contains t (rcon_steam_id_64 q)"
  consider (none) "?query = []" | (many) "?query \<noteq> []" "length ?query \<noteq> 1"
    | (one) j where "?query = [j]"
    by (cases ?query) (auto simp: length_Suc_conv)
  then show ?thesis
  proof cases
    case none
    then show ?thesis
      using a by (simp add: player_step_def matching_rows_def)
  next
    case many
    then show ?thesis
      by (simp add: player_step_def)
  next
    case (one j)
    then have j: "j < length t" and m: "str_contains (steam_id_64 (t ! j)) (rcon_steam_id_64 q)"
      using filter_contains_bound [of j t "rcon_steam_id_64 q"]
            filter_contains_match [of j t "rcon_steam_id_64 q"]
      by simp_all
    have no: "\<not> str_contains (steam_id_64 (t ! j)) s"
    proof
      assume c: "str_contains (steam_id_64 (t ! j)) s"
      with j have "t ! j \<in> set (matching_rows t s)"
        by (simp add: matching_rows_def)
      with inv have "steam_id_64 (t ! j) = s"
        by blast
      with m b show False
        by simp
    qed
    let ?x = "(t ! j)\<lparr>seeding_time_balance :=
                          seeding_time_balance (t ! j) + timedelta_minutes SEEDING_INCREMENT_TIMER,
                        total_seeding_time :=
                          total_seeding_time (t ! j) + timedelta_minutes SEEDING_INCREMENT_TIMER,
                        last_seed_check := now\<rparr>"
    have step: "player_step now q t = t[j := ?x]"
      using one by (simp add: player_step_def Let_def)
    have "\<not> str_contains (steam_id_64 ?x) s"
      using no by simp
    then have "filter (\<lambda>r. str_contains (steam_id_64 r) s) (t[j := ?x])
                 = filter (\<lambda>r. str_contains (steam_id_64 r) s) t"
      using j no by (rule filter_update_irrelevant)
    then show ?thesis
      by (simp add: step matching_rows_def)
  qed
qed

lemma matching_rows_others:
  assumes "\<forall>q \<in> set qs. \<not> str_contains (rcon_steam_id_64 q) s
                         \<and> \<not> str_contains s (rcon_steam_id_64 q)"
      and "\<forall>r \<in> set (matching_rows t s). steam_id_64 r = s"
  shows "matching_rows (fold (player_step now) qs t) s = matching_rows t s"
  using assms
proof (induction qs arbitrary: t)
  case Nil
  then show ?case by simp
next
  case (Cons q qs)
  from Cons.prems have m: "matching_rows (player_step now q t) s = matching_rows t s"
    by (simp add: matching_rows_other)
  with Cons.prems have "\<forall>r \<in> set (matching_rows (player_step now q t) s). steam_id_64 r = s"
    by simp
  with Cons.IH [of "player_step now q t"] Cons.prems(1) m show ?case
    by simp
qed

lemma matching_rows_new:
  assumes "matching_rows t (rcon_steam_id_64 p) = []"
  shows "matching_rows (player_step now p t) (rcon_steam_id_64 p)
           = [\<lparr>steam_id_64 = rcon_steam_id_64 p, player_name = rcon_name p,
                discord_id = None, seeding_time_balance = 0,
                total_seeding_time = 0, last_seed_check = now\<rparr>]"
proof -
  from assms matching_rows_nth [of t "rcon_steam_id_64 p"]
  have "filter_contains t (rcon_steam_id_64 p) = []"
    by simp
  then show ?thesis
    using assms
    by (simp add: player_step_def matching_rows_def str_contains_refl timedelta_minutes_def)
qed

lemma matching_rows_one:
  assumes "matching_rows t (rcon_steam_id_64 p) = [r]"
  shows "matching_rows (player_step now p t) (rcon_steam_id_64 p)
           = [r\<lparr>seeding_time_balance :=
                   seeding_time_balance r + timedelta_minutes SEEDING_INCREMENT_TIMER,
                 total_seeding_time :=
                   total_seeding_time r + timedelta_minutes SEEDING_INCREMENT_TIMER,
                 last_seed_check := now\<rparr>]"
proof -
  let ?s = "rcon_steam_id_64 p"
  from assms matching_rows_nth [of t ?s]
  obtain i where q: "filter_contains t ?s = [i]" and r: "t ! i = r"
    by (cases "filter_contains t ?s") auto
  then have i: "i < length t"
    using filter_contains_bound [of i t ?s] by simp
  let ?x = "r\<lparr>seeding_time_balance :=
                   seeding_time_balance r + timedelta_minutes SEEDING_INCREMENT_TIMER,
                 total_seeding_time :=
                   total_seeding_time r + timedelta_minutes SEEDING_INCREMENT_TIMER,
                 last_seed_check := now\<rparr>"
  have step: "player_step now p t = t[i := ?x]"
    using q r by (simp add: player_step_def Let_def)
  have "filter_contains (t[i := ?x]) ?s = [i]"
    using filter_contains_update [of i t ?x ?s] i r q by simp
  with matching_rows_nth [of "t[i := ?x]" ?s] i
  have "matching_rows (t[i := ?x]) ?s = [?x]"
    by simp
  with step show ?thesis
    by simp
qed

lemma tick_rows_new:
  assumes gate: "within_seeding_hours parse cfg time_now \<noteq> Inr False"
      and saves: "\<forall>r. save_ok r"
      and listed: "seeding_players cfg result = before @ [player] @ after"
      and others: "\<forall>q \<in> set (before @ after).
                     \<not> str_contains (rcon_steam_id_64 q) (rcon_steam_id_64 player)
                   \<and> \<not> str_contains (rcon_steam_id_64 player) (rcon_steam_id_64 q)"
      and none: "matching_rows t (rcon_steam_id_64 player) = []"
  shows "matching_rows (table (update_seeders parse cfg ws time_now now save_ok send result t))
           (rcon_steam_id_64 player)
         = [\<lparr>steam_id_64 = rcon_steam_id_64 player, player_name = rcon_name player,
              discord_id = None, seeding_time_balance = 0,
              total_seeding_time = 0, last_seed_check = now\<rparr>]"
proof -
  let ?s = "rcon_steam_id_64 player"
  let ?t1 = "fold (player_step now) before t"
  let ?t2 = "player_step now player ?t1"
  let ?new = "\<lparr>steam_id_64 = rcon_steam_id_64 player, player_name = rcon_name player,
              discord_id = None, seeding_time_balance = 0,
              total_seeding_time = 0, last_seed_check = now\<rparr>"
  from others have ob: "\<forall>q \<in> set before. \<not> str_contains (rcon_steam_id_64 q) ?s
                                         \<and> \<not> str_contains ?s (rcon_steam_id_64 q)"
    and oa: "\<forall>q \<in> set after. \<not> str_contains (rcon_steam_id_64 q) ?s
                            \<and> \<not> str_contains ?s (rcon_steam_id_64 q)"
    by simp_all
  have "matching_rows ?t1 ?s = matching_rows t ?s"
    using ob none by (intro matching_rows_others) simp_all
  with none have "matching_rows ?t1 ?s = []"
    by simp
  then have m2: "matching_rows ?t2 ?s = [?new]"
    by (rule matching_rows_new)
  have "matching_rows (fold (player_step now) after ?t2) ?s = matching_rows ?t2 ?s"
    using oa m2 by (intro matching_rows_others) simp_all
  with m2 have "matching_rows (fold (player_step now) after ?t2) ?s = [?new]"
    by simp
  moreover have "table (update_seeders parse cfg ws time_now now save_ok send result t)
                   = fold (player_step now) after ?t2"
    using update_seeders_table [OF gate saves, of ws now send result t] listed
    by simp
  ultimately show ?thesis
    by simp
qed

lemma tick_rows_one:
  assumes gate: "within_seeding_hours parse cfg time_now \<noteq> Inr False"
      and saves: "\<forall>r. save_ok r"
      and listed: "seeding_players cfg result = before @ [player] @ after"
      and others: "\<forall>q \<in> set (before @ after).
                     \<not> str_contains (rcon_steam_id_64 q) (rcon_steam_id_64 player)
                   \<and> \<not> str_contains (rcon_steam_id_64 player) (rcon_steam_id_64 q)"
      and one: "matching_rows t (rcon_steam_id_64 player) = [r]"
      and own: "steam_id_64 r = rcon_steam_id_64 player"
  shows "matching_rows (table (update_seeders parse cfg ws time_now now save_ok send result t))
           (rcon_steam_id_64 player)
         = [r\<lparr>seeding_time_balance :=
                 seeding_time_balance r + timedelta_minutes SEEDING_INCREMENT_TIMER,
               total_seeding_time :=
                 total_seeding_time r + timedelta_minutes SEEDING_INCREMENT_TIMER,
               last_seed_check := now\<rparr>]"
proof -
  let ?s = "rcon_steam_id_64 player"
  let ?t1 = "fold (player_step now) before t"
  let ?t2 = "player_step now player ?t1"
  let ?x = "r\<lparr>seeding_time_balance :=
                 seeding_time_balance r + timedelta_minutes SEEDING_INCREMENT_TIMER,
               total_seeding_time :=
                 total_seeding_time r + timedelta_minutes SEEDING_INCREMENT_TIMER,
               last_seed_check := now\<rparr>"
  from others have ob: "\<forall>q \<in> set before. \<not> str_contains (rcon_steam_id_64 q) ?s
                                         \<and> \<not> str_contains ?s (rcon_steam_id_64 q)"
    and oa: "\<forall>q \<in> set after. \<not> str_contains (rcon_steam_id_64 q) ?s
                            \<and> \<not> str_contains ?s (rcon_steam_id_64 q)"
    by simp_all
  have "matching_rows ?t1 ?s = matching_rows t ?s"
    using ob one own by (intro matching_rows_others) simp_all
  with one have "matching_rows ?t1 ?s = [r]"
    by simp
  then have m2: "matching_rows ?t2 ?s = [?x]"
    by (rule matching_rows_one)
  have "matching_rows (fold (player_step now) after ?t2) ?s = matching_rows ?t2 ?s"
    using oa m2 own by (intro matching_rows_others) simp_all
  with m2 have "matching_rows (fold (player_step now) after ?t2) ?s = [?x]"
    by simp
  moreover have "table (update_seeders parse cfg ws time_now now save_ok send result t)
                   = fold (player_step now) after ?t2"
    using update_seeders_table [OF gate saves, of ws now send result t] listed
    by simp
  ultimately show ?thesis
    by simp
qed

section \<open>Properties\<close>

subsection \<open>Cross-server agreement\<close>

text \<open>
  C1. The claim: when the privilege values of the servers are not all equal, \<open>vip\<close> and
  \<open>claim\<close> report the difference and neither grant nor spend. The check of the code is
  true only for an empty answer, so for two servers that differ (no record on the first,
  an expiration in 2030 on the second) \<open>vip\<close> shows the expiration of the last server and
  \<open>claim\<close> grants on top of it and spends two hours.
\<close>

theorem different_vip_not_reported:
  "vip example_rcon_time example_now get_vip_different (Some (example_player (timedelta_hours 3)))
     = Inr (VipExpires 1893456000000000)
   \<and> claim example_float_ops example_config example_rcon_time example_now get_vip_different grant_vip_ok
        (Some (example_player (timedelta_hours 3))) (Some 2)
     = Inr \<lparr>reply = Claimed (PyInt 2) 1893463200000000,
            player_after = Some ((example_player (timedelta_hours 3))
                                   \<lparr>seeding_time_balance := timedelta_hours 1\<rparr>),
            saved = Some ((example_player (timedelta_hours 3))
                            \<lparr>seeding_time_balance := timedelta_hours 1\<rparr>),
            grant_call = Some (''seeder'', ''76561198000000001'', 1893463200000000)\<rparr>"
  by (simp add: vip_def claim_def ex_defs td_defs pop_def claim_expiration_def claim_base_def Let_def)

subsection \<open>Spending after the grants\<close>

text \<open>
  C2. A claim returns; if a server's result of the grant call is false, the reply is the
  grant problem, the player is unchanged and nothing is saved; and whenever the balance
  of the player object or of the saved record differs from the one before, the grant was
  called and every server's result is true.
\<close>

theorem claim_spend_after_grants:
  "\<exists>out. claim fl cfg conv now get_vip grant_vip (Some player) (Some hours) = Inr out
     \<and> (\<forall>n sid expiration.
           grant_call out = Some (n, sid, expiration)
           \<and> (\<exists>(rcon, result) \<in> set (grant_vip n sid expiration). result = False)
           \<longrightarrow> reply out = GrantProblem \<and> player_after out = Some player \<and> saved out = None)
     \<and> ((\<exists>p. (player_after out = Some p \<or> saved out = Some p)
               \<and> seeding_time_balance p \<noteq> seeding_time_balance player)
           \<longrightarrow> (\<exists>n sid expiration.
                  grant_call out = Some (n, sid, expiration)
                  \<and> (\<forall>(rcon, result) \<in> set (grant_vip n sid expiration). result = True)))"
proof -
  obtain out where out: "claim fl cfg conv now get_vip grant_vip (Some player) (Some hours) = Inr out"
    using claim_returns by blast
  from claim_cases [OF out] show ?thesis
    unfolding out
    by (elim disjE exE conjE) (auto simp: list_ex_iff)
qed

text \<open>
  C2, at concrete inputs: three banked hours and two claimed, once with the second
  server's grant failing and once with both grants succeeding.
\<close>

theorem claim_spend_after_grants_witness:
  "(''server2'', False) \<in> set (grant_vip_second_fails ''seeder'' ''76561198000000001'' 1793800800000000)
   \<and> (\<exists>out. claim example_float_ops example_config example_rcon_time example_now get_vip_none
               grant_vip_second_fails (Some (example_player (timedelta_hours 3))) (Some 2) = Inr out
             \<and> grant_call out = Some (''seeder'', ''76561198000000001'', 1793800800000000)
             \<and> reply out = GrantProblem
             \<and> player_after out = Some (example_player (timedelta_hours 3))
             \<and> saved out = None)
   \<and> (\<exists>out p. claim example_float_ops example_config example_rcon_time example_now get_vip_none
               grant_vip_ok (Some (example_player (timedelta_hours 3))) (Some 2) = Inr out
             \<and> saved out = Some p
             \<and> seeding_time_balance p \<noteq> seeding_time_balance (example_player (timedelta_hours 3))
             \<and> grant_call out = Some (''seeder'', ''76561198000000001'', 1793800800000000)
             \<and> list_all snd (grant_vip_ok ''seeder'' ''76561198000000001'' 1793800800000000))"
proof -
  let ?c = "claim example_float_ops example_config example_rcon_time example_now get_vip_none
              grant_vip_second_fails (Some (example_player (timedelta_hours 3))) (Some 2)"
  let ?d = "claim example_float_ops example_config example_rcon_time example_now get_vip_none
              grant_vip_ok (Some (example_player (timedelta_hours 3))) (Some 2)"
  let ?p = "(example_player (timedelta_hours 3))\<lparr>seeding_time_balance := timedelta_hours 1\<rparr>"
  have m: "(''server2'', False)
             \<in> set (grant_vip_second_fails ''seeder'' ''76561198000000001'' 1793800800000000)"
    by (simp add: grant_vip_second_fails_def)
  have g: "map_sum id grant_call ?c
             = Inr (Some (''seeder'', ''76561198000000001'', 1793800800000000))"
    by (simp add: claim_def ex_defs td_defs pop_def claim_expiration_def claim_base_def Let_def)
  obtain out where o: "?c = Inr out"
    and f: "\<forall>n sid expiration.
           grant_call out = Some (n, sid, expiration)
           \<and> (\<exists>(rcon, result) \<in> set (grant_vip_second_fails n sid expiration). result = False)
           \<longrightarrow> reply out = GrantProblem
               \<and> player_after out = Some (example_player (timedelta_hours 3))
               \<and> saved out = None"
    using claim_spend_after_grants [of example_float_ops example_config example_rcon_time example_now get_vip_none
          grant_vip_second_fails "example_player (timedelta_hours 3)" 2]
    by blast
  from g o have gc: "grant_call out = Some (''seeder'', ''76561198000000001'', 1793800800000000)"
    by simp
  from m have "\<exists>(rcon, result)
                 \<in> set (grant_vip_second_fails ''seeder'' ''76561198000000001'' 1793800800000000).
               result = False"
    by (rule bexI [rotated]) simp
  with f gc have "reply out = GrantProblem
               \<and> player_after out = Some (example_player (timedelta_hours 3))
               \<and> saved out = None"
    by blast
  with o gc have failing: "\<exists>out. ?c = Inr out
             \<and> grant_call out = Some (''seeder'', ''76561198000000001'', 1793800800000000)
             \<and> reply out = GrantProblem
             \<and> player_after out = Some (example_player (timedelta_hours 3))
             \<and> saved out = None"
    by blast
  have g': "map_sum id grant_call ?d
             = Inr (Some (''seeder'', ''76561198000000001'', 1793800800000000))"
    by (simp add: claim_def ex_defs td_defs pop_def claim_expiration_def claim_base_def Let_def)
  have s': "map_sum id saved ?d = Inr (Some ?p)"
    by (simp add: claim_def ex_defs td_defs pop_def claim_expiration_def claim_base_def Let_def)
  obtain out' where o': "?d = Inr out'"
    and f': "(\<exists>p. (player_after out' = Some p \<or> saved out' = Some p)
               \<and> seeding_time_balance p
                    \<noteq> seeding_time_balance (example_player (timedelta_hours 3)))
           \<longrightarrow> (\<exists>n sid expiration.
                  grant_call out' = Some (n, sid, expiration)
                  \<and> (\<forall>(rcon, result) \<in> set (grant_vip_ok n sid expiration). result = True))"
    using claim_spend_after_grants [of example_float_ops example_config example_rcon_time example_now get_vip_none
          grant_vip_ok "example_player (timedelta_hours 3)" 2]
    by blast
  from s' o' have sv: "saved out' = Some ?p"
    by simp
  from g' o' have gc': "grant_call out' = Some (''seeder'', ''76561198000000001'', 1793800800000000)"
    by simp
  have ne: "seeding_time_balance ?p \<noteq> seeding_time_balance (example_player (timedelta_hours 3))"
    by (simp add: example_player_def timedelta_hours_def)
  from f' sv ne have "\<exists>n sid expiration.
                  grant_call out' = Some (n, sid, expiration)
                  \<and> (\<forall>(rcon, result) \<in> set (grant_vip_ok n sid expiration). result = True)"
    by blast
  with gc' have "\<forall>(rcon, result)
                   \<in> set (grant_vip_ok ''seeder'' ''76561198000000001'' 1793800800000000).
                 result = True"
    by simp
  then have "list_all snd (grant_vip_ok ''seeder'' ''76561198000000001'' 1793800800000000)"
    by (auto simp: list_all_iff)
  with o' sv ne gc' have succeeding: "\<exists>out p. ?d = Inr out
             \<and> saved out = Some p
             \<and> seeding_time_balance p \<noteq> seeding_time_balance (example_player (timedelta_hours 3))
             \<and> grant_call out = Some (''seeder'', ''76561198000000001'', 1793800800000000)
             \<and> list_all snd (grant_vip_ok ''seeder'' ''76561198000000001'' 1793800800000000)"
    by blast
  from m failing succeeding show ?thesis
    by (intro conjI)
qed

subsection \<open>Expirations at or beyond the year 2200\<close>

text \<open>
  C3, as stated, fails: with a privilege that ends on 2199-12-31T23:00:00 UTC on both
  servers, a claim of two hours computes an expiration in 2200 and calls no grant.
\<close>

theorem claim_far_future_counterexample:
  "far_future \<le> claim_expiration example_float_ops example_config example_rcon_time example_now
        (vip_until ''2199-12-31T23:00:00+00:00'') 2
   \<and> claim example_float_ops example_config example_rcon_time example_now get_vip_2199 grant_vip_ok
        (Some (example_player (timedelta_hours 3))) (Some 2)
     = Inr \<lparr>reply = NoNeedToConvert,
            player_after = Some (example_player (timedelta_hours 3)),
            saved = Some (example_player (timedelta_hours 3)), grant_call = None\<rparr>"
  by (simp add: claim_def ex_defs td_defs pop_def claim_expiration_def claim_base_def Let_def)

text \<open>
  C3, amended. When the balance check and the comparison of the servers pass and the
  computed expiration is at or beyond 2200-01-01 UTC, the reply is that the VIP does not
  expire, no grant is called, the balance is not decremented and the unchanged record is
  saved.
\<close>

theorem claim_far_future_no_grant:
  assumes "\<not> hours > td_seconds (seeding_time_balance player) div 3600"
      and "\<not> entries_mismatch (map snd (get_vip (steam_id_64 player)))"
      and "far_future \<le> claim_expiration fl cfg conv now
             (last (map snd (get_vip (steam_id_64 player)))) hours"
  shows "claim fl cfg conv now get_vip grant_vip (Some player) (Some hours)
           = Inr \<lparr>reply = NoNeedToConvert, player_after = Some player,
                  saved = Some player, grant_call = None\<rparr>"
  using assms by (simp add: claim_def Let_def pop_agreed)

text \<open>
  C3, amended, at the input of the counterexample.
\<close>

theorem claim_far_future_no_grant_witness:
  "\<not> 2 > td_seconds (seeding_time_balance (example_player (timedelta_hours 3))) div 3600
   \<and> \<not> entries_mismatch (map snd (get_vip_2199 (steam_id_64 (example_player (timedelta_hours 3)))))
   \<and> far_future \<le> claim_expiration example_float_ops example_config example_rcon_time example_now
        (last (map snd (get_vip_2199 (steam_id_64 (example_player (timedelta_hours 3)))))) 2
   \<and> claim example_float_ops example_config example_rcon_time example_now get_vip_2199 grant_vip_ok
        (Some (example_player (timedelta_hours 3))) (Some 2)
     = Inr \<lparr>reply = NoNeedToConvert,
            player_after = Some (example_player (timedelta_hours 3)),
            saved = Some (example_player (timedelta_hours 3)), grant_call = None\<rparr>"
proof -
  have h1: "\<not> 2 > td_seconds (seeding_time_balance (example_player (timedelta_hours 3))) div 3600"
    by (simp add: ex_defs td_defs)
  have h2: "\<not> entries_mismatch (map snd (get_vip_2199 (steam_id_64 (example_player (timedelta_hours 3)))))"
    by (simp add: ex_defs)
  have h3: "far_future \<le> claim_expiration example_float_ops example_config example_rcon_time example_now
        (last (map snd (get_vip_2199 (steam_id_64 (example_player (timedelta_hours 3)))))) 2"
    by (simp add: ex_defs td_defs claim_expiration_def claim_base_def)
  show ?thesis
    using h1 h2 h3
      claim_far_future_no_grant [where hours = 2 and player = "example_player (timedelta_hours 3)"
        and get_vip = get_vip_2199 and fl = example_float_ops and cfg = example_config
        and conv = example_rcon_time
        and now = example_now and grant_vip = grant_vip_ok]
    by simp
qed

subsection \<open>A player seen for the first time\<close>

text \<open>
  C4, as stated, fails: the record made for a player without one has a balance of zero,
  not of one increment, and after a second tick the balance is three minutes, not six.
\<close>

theorem new_seeder_counterexample:
  "update_seeders example_parse example_config False (12, 0, 0, 0) example_now
        save_succeeds message_delivered example_result []
     = \<lparr>table = [\<lparr>steam_id_64 = ''76561198000000001'', player_name = ''seeder'',
                    discord_id = None, seeding_time_balance = 0, total_seeding_time = 0,
                    last_seed_check = example_now\<rparr>],
         events = [], raised = False\<rparr>
   \<and> update_seeders example_parse example_config False (12, 3, 0, 0) (example_now + timedelta_minutes 3)
        save_succeeds message_delivered example_result
        (table (update_seeders example_parse example_config False (12, 0, 0, 0) example_now
                  save_succeeds message_delivered example_result []))
     = \<lparr>table = [\<lparr>steam_id_64 = ''76561198000000001'', player_name = ''seeder'',
                    discord_id = None, seeding_time_balance = timedelta_minutes 3,
                    total_seeding_time = timedelta_minutes 3,
                    last_seed_check = example_now + timedelta_minutes 3\<rparr>],
         events = [], raised = False\<rparr>
   \<and> (0 :: timedelta) \<noteq> timedelta_minutes SEEDING_INCREMENT_TIMER
   \<and> timedelta_minutes 3 \<noteq> timedelta_minutes 6"
  by (simp add: tick_defs ex_defs td_defs Let_def upt_rec)

text \<open>
  C4, amended. Take two consecutive ticks that the window check lets run and in which
  every write succeeds. If no row of the table matches the player's steam id, the player
  is listed once among the players of the seeding servers of each tick, and no other
  listed player's steam id contains the player's or is contained in it, then after the
  first tick exactly one row matches: it has that steam id and name, no discord id, a
  balance and a total of zero and \<open>last_seed_check = now\<close>; and after the second tick that
  row has a balance and a total of one increment (3 minutes).
\<close>

theorem update_seeders_new_seeder:
  assumes "within_seeding_hours parse cfg time_now \<noteq> Inr False"
      and "within_seeding_hours parse cfg time_now' \<noteq> Inr False"
      and "\<forall>r. save_ok r"
      and "filter_contains t (rcon_steam_id_64 player) = []"
      and "seeding_players cfg result = before @ [player] @ after"
      and "seeding_players cfg result' = before' @ [player] @ after'"
      and "\<forall>q \<in> set (before @ after @ before' @ after').
             \<not> str_contains (rcon_steam_id_64 q) (rcon_steam_id_64 player)
           \<and> \<not> str_contains (rcon_steam_id_64 player) (rcon_steam_id_64 q)"
  shows "matching_rows (table (update_seeders parse cfg ws time_now now save_ok send result t))
           (rcon_steam_id_64 player)
         = [\<lparr>steam_id_64 = rcon_steam_id_64 player, player_name = rcon_name player,
              discord_id = None, seeding_time_balance = 0,
              total_seeding_time = 0, last_seed_check = now\<rparr>]
       \<and> matching_rows
           (table (update_seeders parse cfg ws time_now' now' save_ok send result'
                     (table (update_seeders parse cfg ws time_now now save_ok send result t))))
           (rcon_steam_id_64 player)
         = [\<lparr>steam_id_64 = rcon_steam_id_64 player, player_name = rcon_name player,
              discord_id = None,
              seeding_time_balance = timedelta_minutes SEEDING_INCREMENT_TIMER,
              total_seeding_time = timedelta_minutes SEEDING_INCREMENT_TIMER,
              last_seed_check = now'\<rparr>]"
proof -
  let ?s = "rcon_steam_id_64 player"
  let ?new = "\<lparr>steam_id_64 = rcon_steam_id_64 player, player_name = rcon_name player,
              discord_id = None, seeding_time_balance = 0,
              total_seeding_time = 0, last_seed_check = now\<rparr>"
  let ?t1 = "table (update_seeders parse cfg ws time_now now save_ok send result t)"
  from assms(4) matching_rows_nth [of t ?s] have none: "matching_rows t ?s = []"
    by simp
  from assms(7) have o1: "\<forall>q \<in> set (before @ after).
             \<not> str_contains (rcon_steam_id_64 q) ?s \<and> \<not> str_contains ?s (rcon_steam_id_64 q)"
    and o2: "\<forall>q \<in> set (before' @ after').
             \<not> str_contains (rcon_steam_id_64 q) ?s \<and> \<not> str_contains ?s (rcon_steam_id_64 q)"
    by auto
  have first: "matching_rows ?t1 ?s = [?new]"
    using assms(1) assms(3) assms(5) o1 none by (rule tick_rows_new)
  have own: "steam_id_64 ?new = ?s"
    by simp
  have "matching_rows
           (table (update_seeders parse cfg ws time_now' now' save_ok send result' ?t1)) ?s
         = [?new\<lparr>seeding_time_balance :=
                 seeding_time_balance ?new + timedelta_minutes SEEDING_INCREMENT_TIMER,
               total_seeding_time :=
                 total_seeding_time ?new + timedelta_minutes SEEDING_INCREMENT_TIMER,
               last_seed_check := now'\<rparr>]"
    using assms(2) assms(3) assms(6) o2 first own by (rule tick_rows_one)
  with first show ?thesis
    by simp
qed

text \<open>
  C4, amended, at a concrete input: a table with the record of another player, and two
  ticks in which one seeding server lists the other player and the new one.
\<close>

theorem update_seeders_new_seeder_witness:
  "within_seeding_hours example_parse example_config (12, 0, 0, 0) \<noteq> Inr False
   \<and> within_seeding_hours example_parse example_config (12, 3, 0, 0) \<noteq> Inr False
   \<and> save_succeeds (example_player 0)
   \<and> filter_contains example_other_table (rcon_steam_id_64 example_seeder) = []
   \<and> seeding_players example_config example_result_two = [example_other] @ [example_seeder] @ []
   \<and> \<not> str_contains (rcon_steam_id_64 example_other) (rcon_steam_id_64 example_seeder)
   \<and> \<not> str_contains (rcon_steam_id_64 example_seeder) (rcon_steam_id_64 example_other)
   \<and> matching_rows
         (table (update_seeders example_parse example_config False (12, 0, 0, 0) example_now
                   save_succeeds message_delivered example_result_two example_other_table))
         ''76561198000000001''
       = [\<lparr>steam_id_64 = ''76561198000000001'', player_name = ''seeder'',
            discord_id = None, seeding_time_balance = 0, total_seeding_time = 0,
            last_seed_check = example_now\<rparr>]
   \<and> matching_rows
         (table (update_seeders example_parse example_config False (12, 3, 0, 0)
                   (example_now + timedelta_minutes 3)
                   save_succeeds message_delivered example_result_two
                   (table (update_seeders example_parse example_config False (12, 0, 0, 0)
                             example_now save_succeeds message_delivered example_result_two
                             example_other_table))))
         ''76561198000000001''
       = [\<lparr>steam_id_64 = ''76561198000000001'', player_name = ''seeder'',
            discord_id = None, seeding_time_balance = 180000000,
            total_seeding_time = 180000000,
            last_seed_check = example_now + timedelta_minutes 3\<rparr>]"
proof -
  have g1: "within_seeding_hours example_parse example_config (12, 0, 0, 0) \<noteq> Inr False"
    by (simp add: within_seeding_hours_def fromisoformat_def example_config_def)
  have g2: "within_seeding_hours example_parse example_config (12, 3, 0, 0) \<noteq> Inr False"
    by (simp add: within_seeding_hours_def fromisoformat_def example_config_def)
  have sv: "\<forall>r. save_succeeds r"
    by (simp add: save_succeeds_def)
  have nf: "filter_contains example_other_table (rcon_steam_id_64 example_seeder) = []"
    by (simp add: filter_contains_def example_other_table_def example_seeder_def)
  have l: "seeding_players example_config example_result_two
             = [example_other] @ [example_seeder] @ []"
    by (simp add: seeding_players_def example_config_def example_result_two_def)
  have o1: "\<not> str_contains (rcon_steam_id_64 example_other) (rcon_steam_id_64 example_seeder)"
    by (simp add: example_other_def example_seeder_def)
  have o2: "\<not> str_contains (rcon_steam_id_64 example_seeder) (rcon_steam_id_64 example_other)"
    by (simp add: example_other_def example_seeder_def)
  from o1 o2 have o: "\<forall>q \<in> set ([example_other] @ [] @ [example_other] @ []).
             \<not> str_contains (rcon_steam_id_64 q) (rcon_steam_id_64 example_seeder)
           \<and> \<not> str_contains (rcon_steam_id_64 example_seeder) (rcon_steam_id_64 q)"
    by simp
  have sid: "rcon_steam_id_64 example_seeder = ''76561198000000001''"
    and nm: "rcon_name example_seeder = ''seeder''"
    by (simp_all add: example_seeder_def)
  note t = update_seeders_new_seeder [OF g1 g2 sv nf l l o,
             where ws = False and now = example_now and send = message_delivered
               and now' = "example_now + timedelta_minutes 3"]
  from t have c: "matching_rows
         (table (update_seeders example_parse example_config False (12, 0, 0, 0) example_now
                   save_succeeds message_delivered example_result_two example_other_table))
         ''76561198000000001''
       = [\<lparr>steam_id_64 = ''76561198000000001'', player_name = ''seeder'',
            discord_id = None, seeding_time_balance = 0, total_seeding_time = 0,
            last_seed_check = example_now\<rparr>]
   \<and> matching_rows
         (table (update_seeders example_parse example_config False (12, 3, 0, 0)
                   (example_now + timedelta_minutes 3)
                   save_succeeds message_delivered example_result_two
                   (table (update_seeders example_parse example_config False (12, 0, 0, 0)
                             example_now save_succeeds message_delivered example_result_two
                             example_other_table))))
         ''76561198000000001''
       = [\<lparr>steam_id_64 = ''76561198000000001'', player_name = ''seeder'',
            discord_id = None, seeding_time_balance = 180000000,
            total_seeding_time = 180000000,
            last_seed_check = example_now + timedelta_minutes 3\<rparr>]"
    by (simp only: sid nm)
       (simp add: timedelta_minutes_def SEEDING_INCREMENT_TIMER_def)
  have s0: "save_succeeds (example_player 0)"
    by (simp add: save_succeeds_def)
  note c1 = conjunct1 [OF c] and c2 = conjunct2 [OF c]
  from g1 g2 s0 nf l o1 o2 c1 c2 show ?thesis
    by (intro conjI)
qed

subsection \<open>Balances of a day or more\<close>

text \<open>
  C5. The claim: the spend fails exactly when the requested hours exceed the whole hours
  of the balance. The code reads the hours from the \<open>seconds\<close> field, which leaves out the
  days: with 25 banked hours a claim of 2 hours is answered with "not enough banked
  time" (1 banked hour).
\<close>

theorem claim_day_of_balance_not_counted:
  "claim example_float_ops example_config example_rcon_time example_now get_vip_none grant_vip_ok
        (Some (example_player (timedelta_hours 25))) (Some 2)
     = Inr \<lparr>reply = NotEnoughBanked 1,
            player_after = Some (example_player (timedelta_hours 25)),
            saved = None, grant_call = None\<rparr>
   \<and> seeding_time_balance (example_player (timedelta_hours 25)) div timedelta_hours 1 = 25"
  by (simp add: claim_def ex_defs td_defs)

text \<open>
  C6. The claim: the reward message is sent exactly when the hour count of the balance
  grows. The code compares the hours read from the \<open>seconds\<close> field: a balance going
  from 23 h 58 min to 24 h 01 min goes from 23 whole hours to 24, and no message is sent
  (no event is recorded).
\<close>

theorem reward_message_lost_at_24_hours:
  "update_seeders example_parse example_config False (12, 0, 0, 0) example_now
        save_succeeds message_delivered example_result [example_player (timedelta_minutes 1438)]
     = \<lparr>table = [(example_player (timedelta_minutes 1438))
                    \<lparr>seeding_time_balance := timedelta_minutes 1441,
                     total_seeding_time := timedelta_minutes 1441,
                     last_seed_check := example_now\<rparr>],
         events = [], raised = False\<rparr>
   \<and> timedelta_minutes 1438 div timedelta_hours 1 = 23
   \<and> timedelta_minutes 1441 div timedelta_hours 1 = 24"
  by (simp add: tick_defs ex_defs td_defs Let_def upt_rec)

subsection \<open>The time window\<close>

text \<open>
  C7. For all times of day \<open>start\<close>, \<open>end\<close> and every \<open>now\<close>, the gate is active exactly when
  \<open>start \<le> now \<le> end\<close> if \<open>start \<le> end\<close>, and exactly when \<open>now \<ge> start\<close> or
  \<open>now < end\<close> if \<open>start > end\<close> (the window wraps midnight); and the gate is active
  when all three times are the same.
\<close>

theorem is_now_window:
  "((start :: 'a :: linorder) \<le> endt \<longrightarrow> (is_now start endt now \<longleftrightarrow> start \<le> now \<and> now \<le> endt))
   \<and> (endt < start \<longrightarrow> (is_now start endt now \<longleftrightarrow> now \<ge> start \<or> now < endt))
   \<and> is_now (t :: 'a) t t"
  by (auto simp: is_now_def)

theorem is_now_window_witness:
  "((22, 0, 0, 0) :: pytime) > (6, 0, 0, 0)
   \<and> is_now ((22, 0, 0, 0) :: pytime) (6, 0, 0, 0) (23, 30, 0, 0)
   \<and> \<not> is_now ((22, 0, 0, 0) :: pytime) (6, 0, 0, 0) (6, 0, 0, 0)
   \<and> ((6, 0, 0, 0) :: pytime) \<le> (22, 0, 0, 0)
   \<and> is_now ((6, 0, 0, 0) :: pytime) (22, 0, 0, 0) (22, 0, 0, 0)
   \<and> is_now ((12, 0, 0, 0) :: pytime) (12, 0, 0, 0) (12, 0, 0, 0)"
  using is_now_window [of "(22, 0, 0, 0) :: pytime" "(6, 0, 0, 0)" "(23, 30, 0, 0)" "(12, 0, 0, 0)"]
        is_now_window [of "(22, 0, 0, 0) :: pytime" "(6, 0, 0, 0)" "(6, 0, 0, 0)" "(12, 0, 0, 0)"]
        is_now_window [of "(6, 0, 0, 0) :: pytime" "(22, 0, 0, 0)" "(22, 0, 0, 0)" "(12, 0, 0, 0)"]
  by (simp add: less_eq_prod_def less_prod_def)

text \<open>
  C8, as stated, fails: with a start time that is not a time of day the error is logged
  and the tick is not skipped, the player on the seeding server is credited.
\<close>

theorem unparsable_window_counterexample:
  "example_parse ''soon'' = None
   \<and> update_seeders example_parse
        (example_config\<lparr>seeding_start_time_utc := Some ''soon'',
                         seeding_end_time_utc := Some ''06:00''\<rparr>)
        False (12, 0, 0, 0) example_now
        save_succeeds message_delivered example_result [example_player (timedelta_hours 3)]
     = \<lparr>table = [(example_player (timedelta_hours 3))
                    \<lparr>seeding_time_balance := timedelta_minutes 183,
                     total_seeding_time := timedelta_minutes 183,
                     last_seed_check := example_now\<rparr>],
         events = [CantSetSeedingHours], raised = False\<rparr>
   \<and> table (update_seeders example_parse
        (example_config\<lparr>seeding_start_time_utc := Some ''soon'',
                         seeding_end_time_utc := Some ''06:00''\<rparr>)
        False (12, 0, 0, 0) example_now
        save_succeeds message_delivered example_result [example_player (timedelta_hours 3)])
     \<noteq> [example_player (timedelta_hours 3)]"
  by (simp add: tick_defs ex_defs td_defs Let_def upt_rec)

text \<open>
  C8, amended. If the start is unset, or the start is a time and the end is unset, the
  tick runs as with an active window and logs nothing. If the start is set and not a
  time, or the start is a time and the end is set and not a time, the tick runs as with
  an active window, with the configuration error logged first.
\<close>

theorem update_seeders_window_config:
  "(seeding_start_time_utc cfg = None
      \<or> (\<exists>s0 t0. seeding_start_time_utc cfg = Some s0 \<and> parse s0 = Some t0
                  \<and> seeding_end_time_utc cfg = None)
    \<longrightarrow> update_seeders parse cfg ws time_now now save_ok send_player_message result t
          = seed_servers cfg ws now save_ok send_player_message result
              \<lparr>table = t, events = [], raised = False\<rparr>)
   \<and> ((\<exists>s0. seeding_start_time_utc cfg = Some s0 \<and> parse s0 = None)
      \<or> (\<exists>s0 t0 e0. seeding_start_time_utc cfg = Some s0 \<and> parse s0 = Some t0
                  \<and> seeding_end_time_utc cfg = Some e0 \<and> parse e0 = None)
    \<longrightarrow> update_seeders parse cfg ws time_now now save_ok send_player_message result t
          = (seed_servers cfg ws now save_ok send_player_message result
               \<lparr>table = t, events = [], raised = False\<rparr>)
              \<lparr>events := CantSetSeedingHours #
                 events (seed_servers cfg ws now save_ok send_player_message result
                           \<lparr>table = t, events = [], raised = False\<rparr>)\<rparr>)"
proof -
  have unset: "update_seeders parse cfg ws time_now now save_ok send_player_message result t
          = seed_servers cfg ws now save_ok send_player_message result
              \<lparr>table = t, events = [], raised = False\<rparr>"
    if "within_seeding_hours parse cfg time_now = Inl TypeError"
    using that by (simp add: update_seeders_def)
  have invalid: "update_seeders parse cfg ws time_now now save_ok send_player_message result t
          = seed_servers cfg ws now save_ok send_player_message result
              \<lparr>table = t, events = [CantSetSeedingHours], raised = False\<rparr>"
    if "within_seeding_hours parse cfg time_now = Inl ValueError"
    using that by (simp add: update_seeders_def)
  show ?thesis
    by (auto simp: unset invalid seed_servers_logged_first [symmetric]
          within_seeding_hours_def fromisoformat_def)
qed

text \<open>
  C8, amended, at concrete inputs: no window configured, and the start time ''soon''.
\<close>

theorem update_seeders_window_config_witness:
  "seeding_start_time_utc example_config = None
   \<and> update_seeders example_parse example_config False (12, 0, 0, 0) example_now
        save_succeeds message_delivered example_result [example_player (timedelta_hours 3)]
     = \<lparr>table = [(example_player (timedelta_hours 3))
                    \<lparr>seeding_time_balance := timedelta_minutes 183,
                     total_seeding_time := timedelta_minutes 183,
                     last_seed_check := example_now\<rparr>],
         events = [], raised = False\<rparr>
   \<and> seeding_start_time_utc (example_config\<lparr>seeding_start_time_utc := Some ''soon'',
                         seeding_end_time_utc := Some ''06:00''\<rparr>) = Some ''soon''
   \<and> example_parse ''soon'' = None
   \<and> update_seeders example_parse
        (example_config\<lparr>seeding_start_time_utc := Some ''soon'',
                         seeding_end_time_utc := Some ''06:00''\<rparr>)
        False (12, 0, 0, 0) example_now
        save_succeeds message_delivered example_result [example_player (timedelta_hours 3)]
     = \<lparr>table = [(example_player (timedelta_hours 3))
                    \<lparr>seeding_time_balance := timedelta_minutes 183,
                     total_seeding_time := timedelta_minutes 183,
                     last_seed_check := example_now\<rparr>],
         events = [CantSetSeedingHours], raised = False\<rparr>"
proof -
  let ?bad = "example_config\<lparr>seeding_start_time_utc := Some ''soon'',
                         seeding_end_time_utc := Some ''06:00''\<rparr>"
  let ?st = "\<lparr>table = [example_player (timedelta_hours 3)], events = [], raised = False\<rparr>"
  have a: "seeding_start_time_utc example_config = None"
    by (simp add: example_config_def)
  have b: "seeding_start_time_utc ?bad = Some ''soon'' \<and> example_parse ''soon'' = None"
    by (simp add: example_parse_def)
  have run: "seed_servers example_config False example_now save_succeeds message_delivered
               example_result ?st
             = \<lparr>table = [(example_player (timedelta_hours 3))
                    \<lparr>seeding_time_balance := timedelta_minutes 183,
                     total_seeding_time := timedelta_minutes 183,
                     last_seed_check := example_now\<rparr>],
                 events = [], raised = False\<rparr>"
    by (simp add: tick_defs ex_defs td_defs Let_def upt_rec)
  have run': "seed_servers ?bad False example_now save_succeeds message_delivered
               example_result ?st
             = \<lparr>table = [(example_player (timedelta_hours 3))
                    \<lparr>seeding_time_balance := timedelta_minutes 183,
                     total_seeding_time := timedelta_minutes 183,
                     last_seed_check := example_now\<rparr>],
                 events = [], raised = False\<rparr>"
    by (simp add: tick_defs ex_defs td_defs Let_def upt_rec)
  show ?thesis
    using a b run run'
      update_seeders_window_config [where cfg = example_config and parse = example_parse
        and ws = False and time_now = "(12, 0, 0, 0)" and now = example_now
        and save_ok = save_succeeds and send_player_message = message_delivered
        and result = example_result and t = "[example_player (timedelta_hours 3)]"]
      update_seeders_window_config [where cfg = ?bad and parse = example_parse
        and ws = False and time_now = "(12, 0, 0, 0)" and now = example_now
        and save_ok = save_succeeds and send_player_message = message_delivered
        and result = example_result and t = "[example_player (timedelta_hours 3)]"]
    by simp
qed

subsection \<open>What a successful claim changes\<close>

text \<open>
  C9, as stated, fails. A privilege that ended one hour ago on both servers is not
  extended by the two claimed hours: the new expiration is two hours from now, three
  hours after the old one. And when only the first server has a privilege (until 2030),
  the claim succeeds and grants two hours from now, before the first server's expiration.
\<close>

theorem claim_extension_counterexample:
  "claim example_float_ops example_config example_rcon_time example_now get_vip_expired
        grant_vip_ok (Some (example_player (timedelta_hours 3))) (Some 2)
     = Inr \<lparr>reply = Claimed (PyInt 2) (example_now + timedelta_hours 2),
            player_after = Some ((example_player (timedelta_hours 3))
                                   \<lparr>seeding_time_balance := timedelta_hours 1\<rparr>),
            saved = Some ((example_player (timedelta_hours 3))
                            \<lparr>seeding_time_balance := timedelta_hours 1\<rparr>),
            grant_call = Some (''seeder'', ''76561198000000001'',
                               example_now + timedelta_hours 2)\<rparr>
   \<and> example_now + timedelta_hours 2
       \<noteq> example_rcon_time ''2026-11-04T11:00:00+00:00'' + timedelta_hours (1 * 2)
   \<and> claim example_float_ops example_config example_rcon_time example_now get_vip_first_only
        grant_vip_ok (Some (example_player (timedelta_hours 3))) (Some 2)
     = Inr \<lparr>reply = Claimed (PyInt 2) (example_now + timedelta_hours 2),
            player_after = Some ((example_player (timedelta_hours 3))
                                   \<lparr>seeding_time_balance := timedelta_hours 1\<rparr>),
            saved = Some ((example_player (timedelta_hours 3))
                            \<lparr>seeding_time_balance := timedelta_hours 1\<rparr>),
            grant_call = Some (''seeder'', ''76561198000000001'',
                               example_now + timedelta_hours 2)\<rparr>
   \<and> example_now + timedelta_hours 2 < example_rcon_time ''2030-01-01T00:00:00+00:00''"
  by (simp add: claim_def ex_defs ex2_defs td_defs pop_def claim_expiration_def claim_base_def Let_def)

text \<open>
  C9, amended. When \<open>claim\<close> replies that hours were added, the balance of the player (in
  memory and as saved) is the former one minus the claimed hours, whatever the conversion
  rate, and the expiration of the reply is the one passed to the grant. When all servers
  report the same privilege value, that expiration is the base plus rate times hours: the
  base is the reported expiration if it is not before now, and now if it is before now or
  if there is no record or no expiration; for an \<open>int\<close> rate the added duration is exactly
  rate times hours, for a \<open>float\<close> rate it is what \<open>timedelta(hours=rate * hours)\<close> gives.
\<close>

theorem claim_balance_and_expiration:
  assumes "claim fl cfg conv now get_vip grant_vip (Some player) (Some hours) = Inr out"
      and "reply out = Claimed grant_value expiration"
  shows "player_after out = Some (player\<lparr>seeding_time_balance :=
                                     seeding_time_balance player - hours * 3600000000\<rparr>)
       \<and> saved out = player_after out
       \<and> grant_call out = Some (player_name player, steam_id_64 player, expiration)
       \<and> grant_value = times_hours fl (seeder_vip_reward_hours cfg) hours
       \<and> (\<forall>v. (\<forall>entry \<in> set (get_vip (steam_id_64 player)). snd entry = v) \<longrightarrow>
             expiration
               = (case v of
                    None \<Rightarrow> now
                  | Some d \<Rightarrow>
                      (case vip_expiration d of
                         None \<Rightarrow> now
                       | Some str \<Rightarrow> if conv str < now then now else conv str))
                 + (case seeder_vip_reward_hours cfg of
                      PyInt r \<Rightarrow> r * hours * 3600000000
                    | PyFloat x \<Rightarrow> timedelta_hours_float fl (float_times_int fl x hours)))"
proof -
  from claim_claimed [OF assms]
  obtain v0 where p: "pop (map snd (get_vip (steam_id_64 player))) = Inr v0"
    and e: "expiration = claim_expiration fl cfg conv now v0 hours"
    and gv: "grant_value = times_hours fl (seeder_vip_reward_hours cfg) hours"
    and pa: "player_after out = Some (player\<lparr>seeding_time_balance :=
                                        seeding_time_balance player - timedelta_hours hours\<rparr>)"
    and sv: "saved out = player_after out"
    and gc: "grant_call out = Some (player_name player, steam_id_64 player, expiration)"
    by blast
  have ex: "expiration
               = (case v of
                    None \<Rightarrow> now
                  | Some d \<Rightarrow>
                      (case vip_expiration d of
                         None \<Rightarrow> now
                       | Some str \<Rightarrow> if conv str < now then now else conv str))
                 + (case seeder_vip_reward_hours cfg of
                      PyInt r \<Rightarrow> r * hours * 3600000000
                    | PyFloat x \<Rightarrow> timedelta_hours_float fl (float_times_int fl x hours))"
    if "\<forall>entry \<in> set (get_vip (steam_id_64 player)). snd entry = v" for v
  proof -
    from that have "\<forall>x \<in> set (map snd (get_vip (steam_id_64 player))). x = v"
      by simp
    with p have "v0 = v"
      by (rule pop_of_agreed)
    with e show ?thesis
      by (simp only: claim_expiration_formula)
  qed
  from pa have pa': "player_after out = Some (player\<lparr>seeding_time_balance :=
                                     seeding_time_balance player - hours * 3600000000\<rparr>)"
    by (simp add: timedelta_hours_def)
  from pa' sv gc gv ex show ?thesis
    by blast
qed

text \<open>
  C9, amended, at a concrete input: three banked hours, two claimed at rate 1, a
  privilege until 2030-01-01 on both servers.
\<close>

theorem claim_balance_and_expiration_witness:
  "claim example_float_ops example_config example_rcon_time example_now get_vip_2030 grant_vip_ok
        (Some (example_player (timedelta_hours 3))) (Some 2)
     = Inr \<lparr>reply = Claimed (PyInt 2) 1893463200000000,
            player_after = Some ((example_player (timedelta_hours 3))
                                   \<lparr>seeding_time_balance := 3600000000\<rparr>),
            saved = Some ((example_player (timedelta_hours 3))
                            \<lparr>seeding_time_balance := 3600000000\<rparr>),
            grant_call = Some (''seeder'', ''76561198000000001'', 1893463200000000)\<rparr>
   \<and> seeding_time_balance (example_player (timedelta_hours 3)) - 2 * 3600000000 = 3600000000
   \<and> map snd (get_vip_2030 ''76561198000000001'')
       = [vip_until ''2030-01-01T00:00:00+00:00'', vip_until ''2030-01-01T00:00:00+00:00'']
   \<and> \<not> example_rcon_time ''2030-01-01T00:00:00+00:00'' < example_now
   \<and> (1893463200000000 :: datetime)
       = example_rcon_time ''2030-01-01T00:00:00+00:00'' + 1 * 2 * 3600000000"
proof -
  let ?out = "\<lparr>reply = Claimed (PyInt 2) 1893463200000000,
            player_after = Some ((example_player (timedelta_hours 3))
                                   \<lparr>seeding_time_balance := 3600000000\<rparr>),
            saved = Some ((example_player (timedelta_hours 3))
                            \<lparr>seeding_time_balance := 3600000000\<rparr>),
            grant_call = Some (''seeder'', ''76561198000000001'', 1893463200000000)\<rparr>"
  let ?v = "vip_until ''2030-01-01T00:00:00+00:00''"
  have c: "claim example_float_ops example_config example_rcon_time example_now get_vip_2030
        grant_vip_ok (Some (example_player (timedelta_hours 3))) (Some 2) = Inr ?out"
    by (simp add: claim_def ex_defs ex2_defs td_defs pop_def claim_expiration_def claim_base_def Let_def)
  have r: "reply ?out = Claimed (PyInt 2) 1893463200000000"
    by simp
  have a: "\<forall>entry \<in> set (get_vip_2030 (steam_id_64 (example_player (timedelta_hours 3)))).
             snd entry = ?v"
    by (simp add: get_vip_2030_def)
  have b: "seeding_time_balance (example_player (timedelta_hours 3)) - 2 * 3600000000
             = 3600000000"
    by (simp add: example_player_def timedelta_hours_def)
  have m: "map snd (get_vip_2030 ''76561198000000001'') = [?v, ?v]"
    by (simp add: get_vip_2030_def)
  have n: "\<not> example_rcon_time ''2030-01-01T00:00:00+00:00'' < example_now"
    by (simp add: example_rcon_time_def example_now_def)
  note t = claim_balance_and_expiration [OF c r]
  from t have q: "\<forall>v. (\<forall>entry \<in> set (get_vip_2030 (steam_id_64 (example_player (timedelta_hours 3)))).
                      snd entry = v) \<longrightarrow>
             (1893463200000000 :: datetime)
               = (case v of
                    None \<Rightarrow> example_now
                  | Some d \<Rightarrow>
                      (case vip_expiration d of
                         None \<Rightarrow> example_now
                       | Some str \<Rightarrow> if example_rcon_time str < example_now then example_now
                                     else example_rcon_time str))
                 + (case seeder_vip_reward_hours example_config of
                      PyInt r \<Rightarrow> r * 2 * 3600000000
                    | PyFloat x \<Rightarrow> timedelta_hours_float example_float_ops
                                    (float_times_int example_float_ops x 2))"
    by (elim conjE)
  have e: "(1893463200000000 :: datetime)
       = example_rcon_time ''2030-01-01T00:00:00+00:00'' + 1 * 2 * 3600000000"
    using mp [OF spec [OF q, of ?v] a] n
    by (simp add: vip_until_def example_config_def)
  from c b m n e show ?thesis
    by (intro conjI)
qed

subsection \<open>register on an existing record\<close>

text \<open>
  C10. When exactly one row has the steam id, \<open>register\<close> returns, the table keeps its
  length, every row keeps its steam id, name, balance, total and last check, and a
  discord id changes only from unset to the caller's id.
\<close>

theorem register_frame:
  assumes "length (filter_steam_id t steam64) = 1"
  shows "\<exists>r t'. register now author_id author_name steam64 t = Inr (r, t')
           \<and> length t' = length t
           \<and> (\<forall>j < length t.
                 steam_id_64 (t' ! j) = steam_id_64 (t ! j)
               \<and> player_name (t' ! j) = player_name (t ! j)
               \<and> seeding_time_balance (t' ! j) = seeding_time_balance (t ! j)
               \<and> total_seeding_time (t' ! j) = total_seeding_time (t ! j)
               \<and> last_seed_check (t' ! j) = last_seed_check (t ! j)
               \<and> (discord_id (t' ! j) \<noteq> discord_id (t ! j)
                    \<longrightarrow> discord_id (t ! j) = None \<and> discord_id (t' ! j) = Some author_id))"
proof -
  from assms obtain i where q: "filter_steam_id t steam64 = [i]"
    by (cases "filter_steam_id t steam64") auto
  then have i: "i < length t"
    using filter_steam_id_bound [of i t steam64] by simp
  show ?thesis
  proof (cases "discord_id (t ! i)")
    case None
    then show ?thesis
      using q i by (simp add: register_def nth_list_update)
  next
    case (Some d)
    then show ?thesis
      using q by (simp add: register_def)
  qed
qed

text \<open>
  C10, at a concrete input: the second row of the example table has no discord id.
\<close>

theorem register_frame_witness:
  "length (filter_steam_id example_table ''76561198000000002'') = 1
   \<and> register example_now 7 ''newcomer'' ''76561198000000002'' example_table
     = Inr (Registered, [example_player (timedelta_hours 3),
         \<lparr>steam_id_64 = ''76561198000000002'', player_name = ''other'', discord_id = Some 7,
          seeding_time_balance = timedelta_minutes 30, total_seeding_time = timedelta_minutes 30,
          last_seed_check = 1793700000000000\<rparr>])"
proof -
  have h: "length (filter_steam_id example_table ''76561198000000002'') = 1"
    by (simp add: filter_steam_id_def example_table_def example_player_def upt_rec)
  show ?thesis
    using h register_frame [OF h, of example_now 7 "''newcomer''"]
    by (simp add: register_def filter_steam_id_def example_table_def example_player_def upt_rec)
qed

end
